theory Spec2Isabelle
  imports Complex_Main
begin

section \<open>Python values\<close>

text \<open>
  The analyzer (\<^verbatim>\<open>decarbonization_analyzer.py\<close>) works on values decoded from JSON: the
  search provider's results and the inference provider's answer. They are modelled by
  the datatype \<open>json\<close>; a Python \<^verbatim>\<open>dict\<close> with string keys is an association list in
  insertion order, looked up with \<open>map_of\<close> (the first entry of a key is the dict's). A Python \<^verbatim>\<open>str\<close> is a \<open>string\<close> whose
  characters are the code points U+0000 to U+00FF; code points above U+00FF are outside
  the model. A float is a real number (the infinities and NaN, which are truthy like
  every non-zero float, are not represented).

  Every exception the source can raise is a value of \<open>error\<close>, and a function that can
  raise returns \<open>error + 'a\<close> with \<open>Inl\<close> for the exception.
\<close>

datatype error =
  ValueError | AttributeError | TypeError | KeyError | ZeroDivisionError | ConnectionError

datatype json =
  JNull
  | JBool bool
  | JInt int
  | JFloat real
  | JStr string
  | JArr "json list"
  | JObj "(string \<times> json) list"

type_synonym dict = "(string \<times> json) list"

text \<open>Python's truth value of an object, as \<^verbatim>\<open>not x\<close> and \<^verbatim>\<open>if x\<close> test it.\<close>

fun truthy :: "json \<Rightarrow> bool" where
  "truthy JNull = False"
| "truthy (JBool b) = b"
| "truthy (JInt i) = (i \<noteq> 0)"
| "truthy (JFloat x) = (x \<noteq> 0)"
| "truthy (JStr s) = (s \<noteq> [])"
| "truthy (JArr xs) = (xs \<noteq> [])"
| "truthy (JObj d) = (d \<noteq> [])"

text \<open>\<^verbatim>\<open>d.get(k, default)\<close> on a dict, and \<^verbatim>\<open>d[k] = v\<close>.\<close>

definition dict_get :: "dict \<Rightarrow> string \<Rightarrow> json \<Rightarrow> json" where
  "dict_get d k dflt = (case map_of d k of None \<Rightarrow> dflt | Some v \<Rightarrow> v)"

fun dict_set :: "dict \<Rightarrow> string \<Rightarrow> json \<Rightarrow> dict" where
  "dict_set [] k v = [(k, v)]"
| "dict_set ((k', v') # d) k v = (if k' = k then (k, v) # d else (k', v') # dict_set d k v)"

text \<open>
  \<^verbatim>\<open>x.get(k, default)\<close> and \<^verbatim>\<open>x.lower()\<close> on an arbitrary decoded value: only a dict has
  \<^verbatim>\<open>get\<close> and only a string has \<^verbatim>\<open>lower\<close>; on anything else Python raises AttributeError.
\<close>

fun is_dict :: "json \<Rightarrow> bool" where
  "is_dict (JObj d) = True"
| "is_dict _ = False"

fun is_str :: "json \<Rightarrow> bool" where
  "is_str (JStr s) = True"
| "is_str _ = False"

fun get_method :: "json \<Rightarrow> string \<Rightarrow> json \<Rightarrow> error + json" where
  "get_method (JObj d) k dflt = Inr (dict_get d k dflt)"
| "get_method _ k dflt = Inl AttributeError"

section \<open>Python strings\<close>

text \<open>
  Character classes of Python 3 on the code points below 256: \<^verbatim>\<open>str.isspace\<close> (used by
  \<^verbatim>\<open>split()\<close> and \<^verbatim>\<open>strip()\<close>), the upper-case letters that \<^verbatim>\<open>str.lower\<close> changes, the
  decimal digits matched by \<^verbatim>\<open>\d\<close> and the word characters matched by \<^verbatim>\<open>\w\<close> in a
  \<^verbatim>\<open>str\<close> pattern.
\<close>

definition is_space :: "char \<Rightarrow> bool" where
  "is_space c =
     (let n = (of_char c :: nat)
      in (9 \<le> n \<and> n \<le> 13) \<or> (28 \<le> n \<and> n \<le> 32) \<or> n = 133 \<or> n = 160)"

definition is_upper :: "char \<Rightarrow> bool" where
  "is_upper c =
     (let n = (of_char c :: nat)
      in (65 \<le> n \<and> n \<le> 90) \<or> (192 \<le> n \<and> n \<le> 222 \<and> n \<noteq> 215))"

definition is_digit :: "char \<Rightarrow> bool" where
  "is_digit c = (let n = (of_char c :: nat) in 48 \<le> n \<and> n \<le> 57)"

definition is_word :: "char \<Rightarrow> bool" where
  "is_word c =
     (let n = (of_char c :: nat)
      in (48 \<le> n \<and> n \<le> 57) \<or> (65 \<le> n \<and> n \<le> 90) \<or> n = 95 \<or> (97 \<le> n \<and> n \<le> 122)
         \<or> n = 170 \<or> n = 178 \<or> n = 179 \<or> n = 181 \<or> n = 185 \<or> n = 186
         \<or> (188 \<le> n \<and> n \<le> 190) \<or> (192 \<le> n \<and> n \<le> 214) \<or> (216 \<le> n \<and> n \<le> 246)
         \<or> (248 \<le> n \<and> n \<le> 255))"

text \<open>
  \<^verbatim>\<open>str.lower\<close>: below U+0100 every upper-case letter has bit 5 clear and its lower-case
  letter is 32 code points later, so lowering sets bit 5 (the sixth argument of \<open>Char\<close>).
\<close>

fun lower_char :: "char \<Rightarrow> char" where
  "lower_char (Char b0 b1 b2 b3 b4 b5 b6 b7) =
     (if is_upper (Char b0 b1 b2 b3 b4 b5 b6 b7) then Char b0 b1 b2 b3 b4 True b6 b7
      else Char b0 b1 b2 b3 b4 b5 b6 b7)"

definition str_lower :: "string \<Rightarrow> string" where
  "str_lower s = map lower_char s"

fun lower_method :: "json \<Rightarrow> error + string" where
  "lower_method (JStr s) = Inr (str_lower s)"
| "lower_method _ = Inl AttributeError"

text \<open>
  \<^verbatim>\<open>s.split()\<close>: the maximal runs of non-whitespace characters, in order. \<open>cur\<close> is the
  run being read, last character first.
\<close>

fun split_from :: "string \<Rightarrow> string \<Rightarrow> string list" where
  "split_from cur [] = (if cur = [] then [] else [rev cur])"
| "split_from cur (c # cs) =
     (if is_space c then (if cur = [] then split_from [] cs else rev cur # split_from [] cs)
      else split_from (c # cur) cs)"

definition str_split :: "string \<Rightarrow> string list" where
  "str_split s = split_from [] s"

text \<open>\<^verbatim>\<open>s.strip()\<close> and the substring test \<^verbatim>\<open>sub in s\<close>.\<close>

definition str_strip :: "string \<Rightarrow> string" where
  "str_strip s = rev (dropWhile is_space (rev (dropWhile is_space s)))"

fun starts_with :: "string \<Rightarrow> string \<Rightarrow> bool" where
  "starts_with s [] = True"
| "starts_with [] (p # ps) = False"
| "starts_with (c # cs) (p # ps) = (c = p \<and> starts_with cs ps)"

fun str_in :: "string \<Rightarrow> string \<Rightarrow> bool" where
  "str_in sub [] = (sub = [])"
| "str_in sub (c # cs) = (starts_with (c # cs) sub \<or> str_in sub cs)"

section \<open>The standard library's URL parser\<close>

text \<open>
  \<^verbatim>\<open>url_belongs_to_org\<close> calls \<^verbatim>\<open>urllib.parse.urlparse(url).hostname\<close>. The model follows
  \<^verbatim>\<open>urlsplit\<close> of CPython 3.11 and 3.12 as far as the host name depends on it: leading characters
  up to U+0020 are stripped, tab, CR and LF are removed, a scheme is split off, the
  authority (\<^verbatim>\<open>netloc\<close>) is what follows \<^verbatim>\<open>//\<close> up to the first of \<^verbatim>\<open>/ ? #\<close>, and an authority
  with only one of the two square brackets raises \<^verbatim>\<open>ValueError("Invalid IPv6 URL")\<close>.
  An authority with both brackets is validated further, and interpreters differ in how:
  \<^item> CPython 3.11.4 and later pass the text between the first opening bracket and the next
    closing one to \<^verbatim>\<open>_check_bracketed_host\<close>, which raises ValueError unless the text is an
    IPv6 or IPvFuture literal. That validation belongs to the \<^verbatim>\<open>ipaddress\<close> module and is the
    parameter \<open>check_bracketed_host\<close> of the library record below (constantly true for an
    interpreter without it).
  \<^item> Interpreters that have \<^verbatim>\<open>_check_bracketed_netloc\<close> (3.12.3 for one) split the authority as
    the \<^verbatim>\<open>hostname\<close> property does, raise ValueError on text before the opening bracket
    and on text after the closing one that does not start with a colon, and pass the
    host they find, bracketed or not, to \<^verbatim>\<open>_check_bracketed_host\<close>. The flag
    \<open>checks_bracketed_netloc\<close> of the library record says that the interpreter is one of
    these.
  The NFKC check of the authority (\<^verbatim>\<open>_checknetloc\<close>) never raises on code points below
  U+0100.

  The library record holds what the analyzer takes from libraries whose code is not part
  of the repository: the two facts about the URL parser, \<^verbatim>\<open>json.loads\<close> on the text cut out of
  the inference answer (the text starts with an opening brace, so the result is a dict, or
  \<open>None\<close> when loading raises), and the check pandas makes before it gives a column its
  \<^verbatim>\<open>.str\<close> accessor.
\<close>

record pylib =
  check_bracketed_host :: "string \<Rightarrow> bool"
  checks_bracketed_netloc :: bool
  json_loads :: "string \<Rightarrow> dict option"
  str_accessor_ok :: "json list \<Rightarrow> bool"

definition lstrip_c0 :: "string \<Rightarrow> string" where
  "lstrip_c0 url = dropWhile (\<lambda>c. (of_char c :: nat) \<le> 32) url"

definition remove_unsafe :: "string \<Rightarrow> string" where
  "remove_unsafe url = filter (\<lambda>c. c \<noteq> CHR 0x09 \<and> c \<noteq> CHR 0x0D \<and> c \<noteq> CHR 0x0A) url"

definition is_scheme_char :: "char \<Rightarrow> bool" where
  "is_scheme_char c =
     (let n = (of_char c :: nat)
      in (97 \<le> n \<and> n \<le> 122) \<or> (65 \<le> n \<and> n \<le> 90) \<or> (48 \<le> n \<and> n \<le> 57)
         \<or> c = CHR ''+'' \<or> c = CHR ''-'' \<or> c = CHR ''.'')"

definition is_ascii_alpha :: "char \<Rightarrow> bool" where
  "is_ascii_alpha c =
     (let n = (of_char c :: nat) in (97 \<le> n \<and> n \<le> 122) \<or> (65 \<le> n \<and> n \<le> 90))"

text \<open>
  The scheme: with \<open>i\<close> the index of the first colon, \<^verbatim>\<open>url[:i]\<close> is a scheme when
  \<open>i > 0\<close>, its first character is an ASCII letter and all its characters are scheme
  characters; the URL then continues after the colon.
\<close>

definition after_scheme :: "string \<Rightarrow> string" where
  "after_scheme url =
     (let pre = takeWhile (\<lambda>c. c \<noteq> CHR '':'') url
      in case pre of
           [] \<Rightarrow> url
         | c # _ \<Rightarrow>
             if length pre < length url \<and> is_ascii_alpha c \<and> list_all is_scheme_char pre
             then drop (length pre + 1) url
             else url)"

definition netloc_of :: "string \<Rightarrow> string" where
  "netloc_of url =
     (if take 2 url = ''//''
      then takeWhile (\<lambda>c. c \<noteq> CHR ''/'' \<and> c \<noteq> CHR ''?'' \<and> c \<noteq> CHR ''#'') (drop 2 url)
      else [])"

text \<open>
  The two validations of an authority that has both brackets; \<open>True\<close> is a return and
  \<open>False\<close> a ValueError. The first is
  \<^verbatim>\<open>_check_bracketed_host(netloc.partition('[')[2].partition(']')[0])\<close>, the second is
  \<^verbatim>\<open>_check_bracketed_netloc(netloc)\<close>.
\<close>

definition bracketed_host_ok :: "pylib \<Rightarrow> string \<Rightarrow> bool" where
  "bracketed_host_ok lib netloc =
     check_bracketed_host lib
       (takeWhile (\<lambda>c. c \<noteq> CHR '']'') (drop 1 (dropWhile (\<lambda>c. c \<noteq> CHR ''['') netloc)))"

definition bracketed_netloc_ok :: "pylib \<Rightarrow> string \<Rightarrow> bool" where
  "bracketed_netloc_ok lib netloc =
     (let hostname_and_port = rev (takeWhile (\<lambda>c. c \<noteq> CHR ''@'') (rev netloc));
          before_bracket = takeWhile (\<lambda>c. c \<noteq> CHR ''['') hostname_and_port;
          bracketed = drop 1 (dropWhile (\<lambda>c. c \<noteq> CHR ''['') hostname_and_port)
      in if CHR ''['' \<in> set hostname_and_port
         then (if before_bracket \<noteq> [] then False
               else (case drop 1 (dropWhile (\<lambda>c. c \<noteq> CHR '']'') bracketed) of
                       [] \<Rightarrow> check_bracketed_host lib (takeWhile (\<lambda>c. c \<noteq> CHR '']'') bracketed)
                     | c # _ \<Rightarrow>
                         if c = CHR '':''
                         then check_bracketed_host lib
                                (takeWhile (\<lambda>c. c \<noteq> CHR '']'') bracketed)
                         else False))
         else check_bracketed_host lib (takeWhile (\<lambda>c. c \<noteq> CHR '':'') hostname_and_port))"

definition urlsplit_netloc :: "pylib \<Rightarrow> string \<Rightarrow> error + string" where
  "urlsplit_netloc lib url =
     (let netloc = netloc_of (after_scheme (remove_unsafe (lstrip_c0 url)));
          has_open = (CHR ''['' \<in> set netloc);
          has_close = (CHR '']'' \<in> set netloc)
      in if has_open \<noteq> has_close then Inl ValueError
         else if has_open \<and>
                 \<not> (if checks_bracketed_netloc lib then bracketed_netloc_ok lib netloc
                      else bracketed_host_ok lib netloc)
         then Inl ValueError
         else Inr netloc)"

text \<open>
  The \<^verbatim>\<open>hostname\<close> property of the parse result: the authority after its last \<^verbatim>\<open>@\<close>; a
  bracketed host is the text between the brackets, any other runs to the first colon.
  An empty host is \<open>None\<close>; otherwise the part before a \<^verbatim>\<open>%\<close> is lowered.
\<close>

definition hostname_of :: "string \<Rightarrow> string option" where
  "hostname_of netloc =
     (let hostinfo = rev (takeWhile (\<lambda>c. c \<noteq> CHR ''@'') (rev netloc));
          hostname =
            (if CHR ''['' \<in> set hostinfo
             then takeWhile (\<lambda>c. c \<noteq> CHR '']'')
                    (drop 1 (dropWhile (\<lambda>c. c \<noteq> CHR ''['') hostinfo))
             else takeWhile (\<lambda>c. c \<noteq> CHR '':'') hostinfo)
      in if hostname = [] then None
         else Some (str_lower (takeWhile (\<lambda>c. c \<noteq> CHR ''%'') hostname)
                    @ dropWhile (\<lambda>c. c \<noteq> CHR ''%'') hostname))"

text \<open>
  \<^verbatim>\<open>urlparse(url).hostname\<close> for an arbitrary decoded value. \<^verbatim>\<open>urlparse\<close> decodes an argument
  that is not a \<^verbatim>\<open>str\<close> with \<^verbatim>\<open>x.decode(...) if x else ''\<close>: a false value is parsed as the
  empty URL, and a true one has no \<^verbatim>\<open>decode\<close> (AttributeError).
\<close>

fun urlparse_hostname :: "pylib \<Rightarrow> json \<Rightarrow> error + string option" where
  "urlparse_hostname lib (JStr url) =
     (case urlsplit_netloc lib url of Inl e \<Rightarrow> Inl e | Inr netloc \<Rightarrow> Inr (hostname_of netloc))"
| "urlparse_hostname lib v = (if truthy v then Inl AttributeError else Inr None)"

section \<open>Text matcher\<close>

text \<open>Lines 28 to 47: \<^verbatim>\<open>result_matches_org\<close> and \<^verbatim>\<open>url_belongs_to_org\<close>.\<close>

definition common_words :: "string list" where
  "common_words = [''the'', ''of'', ''and'', ''company'', ''inc'', ''co'', ''-'']"

definition org_tokens :: "string \<Rightarrow> string list" where
  "org_tokens org_name =
     filter (\<lambda>token. token \<notin> set common_words) (str_split (str_lower org_name))"

definition result_matches_org :: "string \<Rightarrow> json \<Rightarrow> error + bool" where
  "result_matches_org org_name result =
     (case get_method result ''title'' (JStr []) of Inl e \<Rightarrow> Inl e | Inr t \<Rightarrow>
     (case lower_method t of Inl e \<Rightarrow> Inl e | Inr title \<Rightarrow>
     (case get_method result ''description'' (JStr []) of Inl e \<Rightarrow> Inl e | Inr d \<Rightarrow>
     (case lower_method d of Inl e \<Rightarrow> Inl e | Inr desc \<Rightarrow>
        Inr (list_ex (\<lambda>token. str_in token title \<or> str_in token desc)
               (org_tokens org_name))))))"

definition url_belongs_to_org :: "pylib \<Rightarrow> string \<Rightarrow> json \<Rightarrow> error + bool" where
  "url_belongs_to_org lib org_name url =
     (case urlparse_hostname lib url of
        Inl e \<Rightarrow> Inl e
      | Inr parsed_hostname \<Rightarrow>
          (let hostname = (case parsed_hostname of None \<Rightarrow> [] | Some h \<Rightarrow> h)
           in Inr (list_ex (\<lambda>token. str_in token hostname) (org_tokens org_name))))"

section \<open>The outside world\<close>

text \<open>
  The two providers, the clock and the output file are outside the program. A \<open>world\<close>
  holds the replies the providers will give to the next requests, in order, the process
  environment, and the trace of effects performed so far. A reply is either a
  transport-level failure (\<^verbatim>\<open>requests\<close> raises) or a response with its status code and
  the result of \<^verbatim>\<open>response.json()\<close> (\<open>None\<close> when the body does not parse and the call
  raises). When no reply is left the request fails at the transport level. Logging and
  console output are not modelled.
\<close>

datatype reply = Failure | Response int "json option"

datatype event =
  Http_get string nat
  | Http_post
  | Sleep nat
  | Write_csv "dict list"

record world =
  get_replies :: "reply list"
  post_replies :: "reply list"
  environ :: "(string \<times> string) list"
  trace :: "event list"

definition sleep :: "nat \<Rightarrow> world \<Rightarrow> world" where
  "sleep n w = w\<lparr>trace := trace w @ [Sleep n]\<rparr>"

text \<open>\<^verbatim>\<open>requests.get(endpoint, headers, params={"q": query, "count": count})\<close>.\<close>

definition requests_get :: "world \<Rightarrow> string \<Rightarrow> nat \<Rightarrow> reply \<times> world" where
  "requests_get w query n =
     (case get_replies w of
        [] \<Rightarrow> (Failure, w\<lparr>trace := trace w @ [Http_get query n]\<rparr>)
      | r # rs \<Rightarrow> (r, w\<lparr>get_replies := rs, trace := trace w @ [Http_get query n]\<rparr>))"

text \<open>\<^verbatim>\<open>requests.post(endpoint, headers, json=data)\<close>, the inference request.\<close>

definition requests_post :: "world \<Rightarrow> reply \<times> world" where
  "requests_post w =
     (case post_replies w of
        [] \<Rightarrow> (Failure, w\<lparr>trace := trace w @ [Http_post]\<rparr>)
      | r # rs \<Rightarrow> (r, w\<lparr>post_replies := rs, trace := trace w @ [Http_post]\<rparr>))"

section \<open>Search client\<close>

text \<open>Lines 59 to 98, \<^verbatim>\<open>search_organization\<close>.\<close>

definition search_query :: "string \<Rightarrow> string" where
  "search_query org_name =
     org_name @ '' decarbonization goals net zero carbon neutral target date''"

text \<open>Line 86: \<^verbatim>\<open>json_data.get("web", {}).get("results", [])\<close>.\<close>

definition web_results :: "json \<Rightarrow> error + json" where
  "web_results json_data =
     (case get_method json_data ''web'' (JObj []) of
        Inl e \<Rightarrow> Inl e
      | Inr web \<Rightarrow> get_method web ''results'' (JArr []))"

text \<open>
  Lines 83 to 93, after the final response is known. The inner \<^verbatim>\<open>try\<close> leaves
  \<^verbatim>\<open>results\<close> at its initial \<^verbatim>\<open>[]\<close> when \<^verbatim>\<open>response.json()\<close> or one of the \<^verbatim>\<open>get\<close> calls raises.
\<close>

definition results_of_response :: "int \<Rightarrow> json option \<Rightarrow> json" where
  "results_of_response status_code body =
     (if status_code = 200
      then (case body of
              None \<Rightarrow> JArr []
            | Some json_data \<Rightarrow>
                (case web_results json_data of Inl e \<Rightarrow> JArr [] | Inr results \<Rightarrow> results))
      else JArr [])"

text \<open>
  Lines 77 to 93, the body of the outer \<^verbatim>\<open>try\<close>: \<open>Inl\<close> is an exception that reaches the
  outer \<^verbatim>\<open>except\<close>.
\<close>

definition search_try :: "world \<Rightarrow> string \<Rightarrow> (error + json) \<times> world" where
  "search_try w org_name =
     (case requests_get w (search_query org_name) 5 of
        (Failure, w1) \<Rightarrow> (Inl ConnectionError, w1)
      | (Response status_code body, w1) \<Rightarrow>
          (if status_code = 429
           then (case requests_get (sleep 5 w1) (search_query org_name) 5 of
                   (Failure, w2) \<Rightarrow> (Inl ConnectionError, w2)
                 | (Response status_code2 body2, w2) \<Rightarrow>
                     (Inr (results_of_response status_code2 body2), w2))
           else (Inr (results_of_response status_code body), w1)))"

text \<open>
  The whole function: the outer \<^verbatim>\<open>except\<close> keeps \<^verbatim>\<open>results = []\<close>, and \<^verbatim>\<open>finally\<close> sleeps one
  second on every path.
\<close>

definition search_organization :: "world \<Rightarrow> string \<Rightarrow> (error + json) \<times> world" where
  "search_organization w org_name =
     (case search_try w org_name of
        (Inl e, w') \<Rightarrow> (Inr (JArr []), sleep 1 w')
      | (Inr results, w') \<Rightarrow> (Inr results, sleep 1 w'))"

section \<open>Goal extractor: the inference step\<close>

text \<open>
  Lines 151 to 185 of \<^verbatim>\<open>analyze_search_results\<close>. Everything between \<^verbatim>\<open>try\<close> and
  \<^verbatim>\<open>except Exception\<close> that raises ends with \<^verbatim>\<open>parsed_response = {}\<close>.

  \<^verbatim>\<open>key in x\<close> and \<^verbatim>\<open>x[key]\<close> for a string key and an arbitrary decoded body: \<^verbatim>\<open>in\<close> is key
  membership on a dict, element membership on a list and the substring test on a string,
  and a TypeError on the rest; subscripting with a string works on a dict only.
\<close>

fun contains_method :: "json \<Rightarrow> string \<Rightarrow> error + bool" where
  "contains_method (JObj d) k = Inr (k \<in> fst ` set d)"
| "contains_method (JArr xs) k = Inr (JStr k \<in> set xs)"
| "contains_method (JStr s) k = Inr (str_in k s)"
| "contains_method _ k = Inl TypeError"

fun getitem :: "json \<Rightarrow> string \<Rightarrow> error + json" where
  "getitem (JObj d) k = (case map_of d k of None \<Rightarrow> Inl KeyError | Some v \<Rightarrow> Inr v)"
| "getitem _ k = Inl TypeError"

text \<open>
  Lines 163 and 164: the \<^verbatim>\<open>text\<close> of every content block that is a dict, joined with
  newlines; \<^verbatim>\<open>str.join\<close> raises TypeError on an item that is not a string.
\<close>

fun block_texts :: "json list \<Rightarrow> json list" where
  "block_texts [] = []"
| "block_texts (JObj d # items) = dict_get d ''text'' (JStr []) # block_texts items"
| "block_texts (_ # items) = block_texts items"

fun join_lines :: "json list \<Rightarrow> error + string" where
  "join_lines [] = Inr []"
| "join_lines [JStr s] = Inr s"
| "join_lines (JStr s # t # ts) =
     (case join_lines (t # ts) of Inl e \<Rightarrow> Inl e | Inr joined \<Rightarrow> Inr (s @ CHR 0x0A # joined))"
| "join_lines (_ # ts) = Inl TypeError"

text \<open>Lines 157 to 166: \<^verbatim>\<open>claude_response_text\<close>, which need not be a string.\<close>

definition claude_response_text :: "json \<Rightarrow> error + json" where
  "claude_response_text result =
     (case contains_method result ''completion'' of
        Inl e \<Rightarrow> Inl e
      | Inr has_completion \<Rightarrow>
          (if has_completion then getitem result ''completion''
           else (case contains_method result ''content'' of
                   Inl e \<Rightarrow> Inl e
                 | Inr has_content \<Rightarrow>
                     (if has_content
                      then (case getitem result ''content'' of
                              Inl e \<Rightarrow> Inl e
                            | Inr (JArr items) \<Rightarrow>
                                (case join_lines (block_texts items) of
                                   Inl e \<Rightarrow> Inl e
                                 | Inr joined \<Rightarrow> Inr (JStr joined))
                            | Inr content \<Rightarrow> Inr content)
                      else Inr (JStr [])))))"

text \<open>
  Line 168: \<^verbatim>\<open>re.search(r'({.*})', text, re.DOTALL)\<close>. The leftmost match starts at the
  first opening brace and, the star being greedy and the dot matching every character,
  ends at the last closing brace after it; there is no match when no closing brace
  follows the first opening one.
\<close>

definition json_candidate :: "string \<Rightarrow> string option" where
  "json_candidate s =
     (let from_brace = dropWhile (\<lambda>c. c \<noteq> CHR 0x7B) s
      in if CHR 0x7D \<in> set from_brace
         then Some (rev (dropWhile (\<lambda>c. c \<noteq> CHR 0x7D) (rev from_brace)))
         else None)"

text \<open>
  Lines 155 to 178, for a body that \<^verbatim>\<open>response.json()\<close> decoded: \<open>Inl\<close> is an exception
  that reaches \<^verbatim>\<open>except Exception\<close> (\<^verbatim>\<open>re.search\<close> raises TypeError on a text that is not a
  string); a text without a candidate or with one that does not load gives \<^verbatim>\<open>{}\<close>.
\<close>

definition parse_answer :: "pylib \<Rightarrow> json \<Rightarrow> error + dict" where
  "parse_answer lib result =
     (case claude_response_text result of
        Inl e \<Rightarrow> Inl e
      | Inr (JStr s) \<Rightarrow>
          (case json_candidate s of
             None \<Rightarrow> Inr []
           | Some json_str \<Rightarrow>
               (case json_loads lib json_str of None \<Rightarrow> Inr [] | Some d \<Rightarrow> Inr d))
      | Inr _ \<Rightarrow> Inl TypeError)"

text \<open>Lines 151 to 185: the inference request and \<^verbatim>\<open>parsed_response\<close>.\<close>

definition infer :: "pylib \<Rightarrow> world \<Rightarrow> dict \<times> world" where
  "infer lib w =
     (case requests_post w of
        (Failure, w1) \<Rightarrow> ([], w1)
      | (Response status_code body, w1) \<Rightarrow>
          (if status_code = 200
           then (case body of
                   None \<Rightarrow> ([], w1)
                 | Some result \<Rightarrow>
                     (case parse_answer lib result of
                        Inl e \<Rightarrow> ([], w1)
                      | Inr parsed_response \<Rightarrow> (parsed_response, w1)))
           else ([], w1)))"

section \<open>Goal extractor: the fallback stage\<close>

text \<open>
  Lines 187 to 212. Each loop is a recursion over the results that returns what the loop
  stores before its \<^verbatim>\<open>break\<close>, or \<open>None\<close> when it runs to the end; an exception raised by a
  check ends the loop and the function.

  \<open>passes_checks\<close> is the conjunction
  \<^verbatim>\<open>result_matches_org(org_name, r) and url_belongs_to_org(org_name, r.get("url", ""))\<close>
  of lines 198 and 210, evaluated left to right.
\<close>

definition passes_checks :: "pylib \<Rightarrow> string \<Rightarrow> json \<Rightarrow> error + bool" where
  "passes_checks lib org_name r =
     (case result_matches_org org_name r of
        Inl e \<Rightarrow> Inl e
      | Inr matches \<Rightarrow>
          (if matches
           then (case get_method r ''url'' (JStr []) of
                   Inl e \<Rightarrow> Inl e
                 | Inr url \<Rightarrow> url_belongs_to_org lib org_name url)
           else Inr False))"

text \<open>Lines 189 to 193.\<close>

fun find_source_url :: "pylib \<Rightarrow> string \<Rightarrow> json list \<Rightarrow> error + json option" where
  "find_source_url lib org_name [] = Inr None"
| "find_source_url lib org_name (r # rs) =
     (case get_method r ''url'' (JStr []) of
        Inl e \<Rightarrow> Inl e
      | Inr url \<Rightarrow>
          (if truthy url
           then (case result_matches_org org_name r of
                   Inl e \<Rightarrow> Inl e
                 | Inr matches \<Rightarrow>
                     (if matches
                      then (case url_belongs_to_org lib org_name url of
                              Inl e \<Rightarrow> Inl e
                            | Inr belongs \<Rightarrow>
                                (if belongs then Inr (Some url)
                                 else find_source_url lib org_name rs))
                      else find_source_url lib org_name rs))
           else find_source_url lib org_name rs))"

text \<open>
  Line 200: \<^verbatim>\<open>re.search(r'\b(20\d{2})\b', desc)\<close>. The search tries the start positions from
  left to right. \<open>year_here s\<close> is a match of \<^verbatim>\<open>20\d{2}\b\<close> at the start of \<open>s\<close>: the digits,
  then a word boundary, that is the end of the text or a character that is not a word
  character. \<open>prev\<close> says whether the character before the position is a word character;
  the first \<^verbatim>\<open>\b\<close> holds when it is not, the next character being the word character 2.
\<close>

fun year_here :: "string \<Rightarrow> bool" where
  "year_here (a # b # c # d # rest) =
     (a = CHR ''2'' \<and> b = CHR ''0'' \<and> is_digit c \<and> is_digit d \<and>
      (case rest of [] \<Rightarrow> True | e # _ \<Rightarrow> \<not> is_word e))"
| "year_here _ = False"

fun search_year_from :: "bool \<Rightarrow> string \<Rightarrow> string option" where
  "search_year_from prev [] = None"
| "search_year_from prev (c # cs) =
     (if \<not> prev \<and> year_here (c # cs) then Some (take 4 (c # cs))
      else search_year_from (is_word c) cs)"

fun re_search_year :: "json \<Rightarrow> error + string option" where
  "re_search_year (JStr desc) = Inr (search_year_from False desc)"
| "re_search_year _ = Inl TypeError"

text \<open>Lines 197 to 203.\<close>

fun find_target_date :: "pylib \<Rightarrow> string \<Rightarrow> json list \<Rightarrow> error + string option" where
  "find_target_date lib org_name [] = Inr None"
| "find_target_date lib org_name (r # rs) =
     (case passes_checks lib org_name r of
        Inl e \<Rightarrow> Inl e
      | Inr official \<Rightarrow>
          (if official
           then (case get_method r ''description'' (JStr []) of
                   Inl e \<Rightarrow> Inl e
                 | Inr desc \<Rightarrow>
                     (case re_search_year desc of
                        Inl e \<Rightarrow> Inl e
                      | Inr None \<Rightarrow> find_target_date lib org_name rs
                      | Inr (Some year) \<Rightarrow> Inr (Some year)))
           else find_target_date lib org_name rs))"

text \<open>Lines 207 to 212.\<close>

definition mentions_goal :: "string \<Rightarrow> bool" where
  "mentions_goal desc =
     (str_in ''decarbon'' (str_lower desc) \<or> str_in ''net zero'' (str_lower desc))"

fun find_description :: "pylib \<Rightarrow> string \<Rightarrow> json list \<Rightarrow> error + string option" where
  "find_description lib org_name [] = Inr None"
| "find_description lib org_name (r # rs) =
     (case get_method r ''description'' (JStr []) of
        Inl e \<Rightarrow> Inl e
      | Inr (JStr desc) \<Rightarrow>
          (if mentions_goal desc
           then (case passes_checks lib org_name r of
                   Inl e \<Rightarrow> Inl e
                 | Inr official \<Rightarrow>
                     (if official then Inr (Some (take 250 (str_strip desc)))
                      else find_description lib org_name rs))
           else find_description lib org_name rs)
      | Inr _ \<Rightarrow> Inl AttributeError)"

text \<open>The three guarded loops, each on the dict the one before left.\<close>

definition fallback_source_url :: "pylib \<Rightarrow> string \<Rightarrow> json list \<Rightarrow> dict \<Rightarrow> error + dict" where
  "fallback_source_url lib org_name search_results parsed_response =
     (if \<not> truthy (dict_get parsed_response ''source_url'' JNull)
      then (case find_source_url lib org_name search_results of
              Inl e \<Rightarrow> Inl e
            | Inr None \<Rightarrow> Inr parsed_response
            | Inr (Some url) \<Rightarrow> Inr (dict_set parsed_response ''source_url'' url))
      else Inr parsed_response)"

definition fallback_target_date :: "pylib \<Rightarrow> string \<Rightarrow> json list \<Rightarrow> dict \<Rightarrow> error + dict" where
  "fallback_target_date lib org_name search_results parsed_response =
     (if \<not> truthy (dict_get parsed_response ''target_date'' JNull)
      then (case find_target_date lib org_name search_results of
              Inl e \<Rightarrow> Inl e
            | Inr None \<Rightarrow> Inr parsed_response
            | Inr (Some year) \<Rightarrow> Inr (dict_set parsed_response ''target_date'' (JStr year)))
      else Inr parsed_response)"

definition fallback_description :: "pylib \<Rightarrow> string \<Rightarrow> json list \<Rightarrow> dict \<Rightarrow> error + dict" where
  "fallback_description lib org_name search_results parsed_response =
     (if \<not> truthy (dict_get parsed_response ''description'' JNull)
      then (case find_description lib org_name search_results of
              Inl e \<Rightarrow> Inl e
            | Inr None \<Rightarrow> Inr parsed_response
            | Inr (Some desc) \<Rightarrow> Inr (dict_set parsed_response ''description'' (JStr desc)))
      else Inr parsed_response)"

definition fallback_stage :: "pylib \<Rightarrow> string \<Rightarrow> json list \<Rightarrow> dict \<Rightarrow> error + dict" where
  "fallback_stage lib org_name search_results parsed_response =
     (case fallback_source_url lib org_name search_results parsed_response of
        Inl e \<Rightarrow> Inl e
      | Inr p1 \<Rightarrow>
          (case fallback_target_date lib org_name search_results p1 of
             Inl e \<Rightarrow> Inl e
           | Inr p2 \<Rightarrow> fallback_description lib org_name search_results p2))"

section \<open>Goal extractor: the whole function\<close>

text \<open>Lines 110 to 116 and 214 to 220: the two dicts the function returns.\<close>

definition not_found_record :: "string \<Rightarrow> dict" where
  "not_found_record org_name =
     [(''organization'', JStr org_name),
      (''has_goal'', JStr ''Not Found''),
      (''target_date'', JNull),
      (''source_url'', JNull),
      (''description'', JStr [])]"

definition goal_record :: "string \<Rightarrow> dict \<Rightarrow> dict" where
  "goal_record org_name parsed_response =
     [(''organization'', JStr org_name),
      (''has_goal'', dict_get parsed_response ''has_goal'' (JStr ''Not Found'')),
      (''target_date'', dict_get parsed_response ''target_date'' JNull),
      (''source_url'', dict_get parsed_response ''source_url'' JNull),
      (''description'', dict_get parsed_response ''description'' (JStr []))]"

text \<open>
  Lines 120 to 123 iterate over \<^verbatim>\<open>search_results\<close> and call \<^verbatim>\<open>result.get\<close> on every item.
  The driver passes whatever the search client returned, so the value need not be a list:
  a string iterates over its characters, a dict over its keys, and a number or a boolean
  is not iterable (TypeError). An item that is not a dict has no \<^verbatim>\<open>get\<close>.
\<close>

fun iter_items :: "json \<Rightarrow> error + json list" where
  "iter_items (JArr rs) = Inr rs"
| "iter_items (JStr s) = Inr (map (\<lambda>c. JStr [c]) s)"
| "iter_items (JObj d) = Inr (map (\<lambda>kv. JStr (fst kv)) d)"
| "iter_items _ = Inl TypeError"

text \<open>
  Lines 100 to 220. The prompt is text sent to the provider; the reply comes from the
  world, so the prompt itself is not modelled beyond the calls that build it.
\<close>

definition analyze_search_results ::
    "pylib \<Rightarrow> world \<Rightarrow> string \<Rightarrow> json \<Rightarrow> (error + dict) \<times> world" where
  "analyze_search_results lib w org_name search_results =
     (if \<not> truthy search_results then (Inr (not_found_record org_name), w)
      else (case iter_items search_results of
              Inl e \<Rightarrow> (Inl e, w)
            | Inr rs \<Rightarrow>
                (if \<not> list_all is_dict rs then (Inl AttributeError, w)
                 else (case infer lib w of
                         (parsed_response, w1) \<Rightarrow>
                           (case fallback_stage lib org_name rs parsed_response of
                              Inl e \<Rightarrow> (Inl e, w1)
                            | Inr p \<Rightarrow> (Inr (goal_record org_name p), w1))))))"

section \<open>Pipeline driver\<close>

text \<open>
  Lines 222 to 270, \<^verbatim>\<open>analyze_decarbonization_goals\<close>. The loop of lines 251 to 256 is the
  recursion \<open>process_orgs\<close>: a search, an analysis and a sleep for each organization.
\<close>

fun process_orgs :: "pylib \<Rightarrow> world \<Rightarrow> string list \<Rightarrow> (error + dict list) \<times> world" where
  "process_orgs lib w [] = (Inr [], w)"
| "process_orgs lib w (org # orgs) =
     (case search_organization w org of
        (Inl e, w1) \<Rightarrow> (Inl e, w1)
      | (Inr search_results, w1) \<Rightarrow>
          (case analyze_search_results lib w1 org search_results of
             (Inl e, w2) \<Rightarrow> (Inl e, w2)
           | (Inr analysis, w2) \<Rightarrow>
               (case process_orgs lib (sleep 1 w2) orgs of
                  (Inl e, w3) \<Rightarrow> (Inl e, w3)
                | (Inr analyses, w3) \<Rightarrow> (Inr (analysis # analyses), w3))))"

text \<open>
  Lines 258 to 270 work on a pandas \<^verbatim>\<open>DataFrame\<close> built from the list of dicts. Its columns
  are the keys that occur in the dicts, so the frame of an empty list has no column at
  all, and \<^verbatim>\<open>df['has_goal']\<close> raises KeyError when no row has the key. The \<^verbatim>\<open>.str\<close> accessor
  raises AttributeError for a column pandas does not take for text (the library's
  \<open>str_accessor_ok\<close>); where it does, \<^verbatim>\<open>.str.lower() == 'yes'\<close> holds for the strings that
  lower to \<^verbatim>\<open>yes\<close> and for nothing else. The quotient of line 270 is Python's true
  division, which raises ZeroDivisionError on a zero divisor; it is taken here over the
  reals, and the rounding of the \<^verbatim>\<open>.1f\<close> format is left out.
\<close>

record summary =
  total_orgs :: nat
  orgs_with_goals :: nat
  percentage :: real

definition has_column :: "string \<Rightarrow> dict list \<Rightarrow> bool" where
  "has_column k rows = list_ex (\<lambda>row. k \<in> fst ` set row) rows"

fun is_yes :: "json \<Rightarrow> bool" where
  "is_yes (JStr s) = (str_lower s = ''yes'')"
| "is_yes _ = False"

definition true_div :: "nat \<Rightarrow> nat \<Rightarrow> error + real" where
  "true_div a b = (if b = 0 then Inl ZeroDivisionError else Inr (real a / real b))"

definition summarize :: "pylib \<Rightarrow> dict list \<Rightarrow> error + summary" where
  "summarize lib results =
     (let n_total = length results
      in if \<not> has_column ''has_goal'' results then Inl KeyError
         else (let has_goal_column = map (\<lambda>row. dict_get row ''has_goal'' JNull) results
               in if \<not> str_accessor_ok lib has_goal_column then Inl AttributeError
                  else (let n_goals = length (filter is_yes has_goal_column)
                        in case true_div n_goals n_total of
                             Inl e \<Rightarrow> Inl e
                           | Inr q \<Rightarrow>
                               Inr \<lparr>total_orgs = n_total, orgs_with_goals = n_goals,
                                    percentage = q * 100\<rparr>)))"

text \<open>
  \<^verbatim>\<open>os.getenv\<close>, and the names of lines 234 to 239 for the keys that are unset or empty.
\<close>

definition getenv :: "world \<Rightarrow> string \<Rightarrow> string option" where
  "getenv w name = map_of (environ w) name"

definition key_missing :: "world \<Rightarrow> string \<Rightarrow> bool" where
  "key_missing w name = (case getenv w name of None \<Rightarrow> True | Some k \<Rightarrow> k = [])"

definition missing_keys :: "world \<Rightarrow> string list" where
  "missing_keys w = filter (key_missing w) [''BRAVE_API_KEY'', ''ANTHROPIC_API_KEY'']"

datatype outcome = Missing_keys "string list" | Report summary

definition write_csv :: "dict list \<Rightarrow> world \<Rightarrow> world" where
  "write_csv rows w = w\<lparr>trace := trace w @ [Write_csv rows]\<rparr>"

definition analyze_decarbonization_goals ::
    "pylib \<Rightarrow> world \<Rightarrow> string list \<Rightarrow> (error + outcome) \<times> world" where
  "analyze_decarbonization_goals lib w org_list =
     (if missing_keys w \<noteq> [] then (Inr (Missing_keys (missing_keys w)), w)
      else (case process_orgs lib w org_list of
              (Inl e, w1) \<Rightarrow> (Inl e, w1)
            | (Inr results, w1) \<Rightarrow>
                (case summarize lib results of
                   Inl e \<Rightarrow> (Inl e, write_csv results w1)
                 | Inr s \<Rightarrow> (Inr (Report s), write_csv results w1))))"

section \<open>Notions used to state the properties\<close>

text \<open>
  The reply to the last request the search client sends: the reply to the retry after a
  first reply with status 429, and the first reply otherwise.
\<close>

definition final_reply :: "world \<Rightarrow> reply" where
  "final_reply w =
     (case get_replies w of
        [] \<Rightarrow> Failure
      | Failure # _ \<Rightarrow> Failure
      | Response status_code body # later \<Rightarrow>
          (if status_code = 429 then (case later of [] \<Rightarrow> Failure | r # _ \<Rightarrow> r)
           else Response status_code body))"

definition rate_limited :: "world \<Rightarrow> bool" where
  "rate_limited w =
     (case get_replies w of Response status_code body # _ \<Rightarrow> status_code = 429 | _ \<Rightarrow> False)"

text \<open>
  The tokens of a description: its maximal runs of word characters, in order. A year
  token is a token of four characters, \<^verbatim>\<open>20\<close> and two digits.
\<close>

fun word_tokens_from :: "string \<Rightarrow> string \<Rightarrow> string list" where
  "word_tokens_from cur [] = (if cur = [] then [] else [rev cur])"
| "word_tokens_from cur (c # cs) =
     (if is_word c then word_tokens_from (c # cur) cs
      else (if cur = [] then word_tokens_from [] cs else rev cur # word_tokens_from [] cs))"

definition word_tokens :: "string \<Rightarrow> string list" where
  "word_tokens s = word_tokens_from [] s"

fun is_year_token :: "string \<Rightarrow> bool" where
  "is_year_token [a, b, c, d] = (a = CHR ''2'' \<and> b = CHR ''0'' \<and> is_digit c \<and> is_digit d)"
| "is_year_token _ = False"

definition first_year_token :: "string \<Rightarrow> string option" where
  "first_year_token desc = find is_year_token (word_tokens desc)"

text \<open>
  A well-formed search result: a dict whose title and description are strings where
  present, and whose URL the URL parser accepts.
\<close>

fun well_formed_result :: "pylib \<Rightarrow> json \<Rightarrow> bool" where
  "well_formed_result lib (JObj d) =
     (is_str (dict_get d ''title'' (JStr [])) \<and> is_str (dict_get d ''description'' (JStr [])) \<and>
      (case urlparse_hostname lib (dict_get d ''url'' (JStr [])) of
         Inl e \<Rightarrow> False
       | Inr h \<Rightarrow> True))"
| "well_formed_result lib _ = False"

text \<open>
  Concrete data for the examples: a library whose URL parser has both validations and
  accepts every host it validates, which loads no JSON text and gives every column its
  accessor; the search result and the provider body
  of the specification's test scenario, and a body with further entries around the same
  result; a world with both keys set in which the search
  provider answers 429 and then 200 with that body, and the inference provider does not
  answer.
\<close>

definition example_lib :: pylib where
  "example_lib =
     \<lparr>check_bracketed_host = (\<lambda>h. True), checks_bracketed_netloc = True,
      json_loads = (\<lambda>s. None), str_accessor_ok = (\<lambda>col. True)\<rparr>"

definition acme_result :: json where
  "acme_result =
     JObj [(''title'', JStr ''Acme decarbonization''),
           (''description'', JStr ''Acme targets net zero by 2035''),
           (''url'', JStr ''https://acme.com/press'')]"

definition acme_body :: json where
  "acme_body = JObj [(''web'', JObj [(''results'', JArr [acme_result])])]"

definition more_body :: json where
  "more_body =
     JObj [(''type'', JStr ''search''),
           (''query'', JObj [(''original'', JStr ''Acme Corp'')]),
           (''web'', JObj [(''type'', JStr ''search''), (''results'', JArr [acme_result])])]"

definition acme_world :: world where
  "acme_world =
     \<lparr>get_replies = [Response 429 None, Response 200 (Some acme_body)],
      post_replies = [],
      environ = [(''BRAVE_API_KEY'', ''k1''), (''ANTHROPIC_API_KEY'', ''k2'')],
      trace = []\<rparr>"

text \<open>
  A second search result, from a third party: its text names the organization and its
  host does not. An inference answer in content blocks, and a library whose \<^verbatim>\<open>json.loads\<close>
  reads the JSON text in it.
\<close>

definition news_result :: json where
  "news_result =
     JObj [(''title'', JStr ''Acme pledges net zero''),
           (''description'', JStr ''Analysts expect Acme to decarbonize by 2040''),
           (''url'', JStr ''https://news.example.org/acme'')]"

text \<open>
  A search result whose text names the organization and whose URL has an opening square
  bracket without a closing one; an inference answer that gives a source URL and no
  target date, and a library that reads its JSON text.
\<close>

definition bad_result :: json where
  "bad_result = JObj [(''title'', JStr ''Acme''), (''url'', JStr ''http://['')]"

definition source_answer :: json where
  \<open>source_answer =
     JObj [(''content'',
            JArr [JObj [(''type'', JStr ''text''),
                        (''text'', JStr ''{"source_url": "https://acme.com/press"}'')]])]\<close>

definition source_lib :: pylib where
  \<open>source_lib =
     example_lib\<lparr>json_loads :=
       (\<lambda>s. if s = ''{"source_url": "https://acme.com/press"}''
            then Some [(''source_url'', JStr ''https://acme.com/press'')]
            else None)\<rparr>\<close>

definition acme_answer :: json where
  \<open>acme_answer =
     JObj [(''content'',
            JArr [JObj [(''type'', JStr ''text''),
                        (''text'', JStr ''Here is the answer: {"has_goal": "Yes"}'')]])]\<close>

definition answer_lib :: pylib where
  \<open>answer_lib =
     example_lib\<lparr>json_loads :=
       (\<lambda>s. if s = ''{"has_goal": "Yes"}'' then Some [(''has_goal'', JStr ''Yes'')]
            else None)\<rparr>\<close>

section \<open>Python strings: properties\<close>

text \<open>
  The substring test is the usual one: \<open>sub\<close> occurs in \<open>s\<close> when \<open>s\<close> is some text, then
  \<open>sub\<close>, then some text.
\<close>

lemma starts_with_iff: "starts_with s p \<longleftrightarrow> (\<exists>rest. s = p @ rest)"
  by (induction s p rule: starts_with.induct) auto

lemma str_in_iff: "str_in sub s \<longleftrightarrow> (\<exists>before after. s = before @ sub @ after)"
proof (induction s)
  case Nil
  show ?case by auto
next
  case (Cons c cs)
  show ?case
  proof
    assume "str_in sub (c # cs)"
    then consider "starts_with (c # cs) sub" | "str_in sub cs" by auto
    then show "\<exists>before after. c # cs = before @ sub @ after"
    proof cases
      case 1
      then obtain rest where "c # cs = sub @ rest" by (auto simp: starts_with_iff)
      then have "c # cs = [] @ sub @ rest" by simp
      then show ?thesis by blast
    next
      case 2
      with Cons obtain before after where "cs = before @ sub @ after" by blast
      then have "c # cs = (c # before) @ sub @ after" by simp
      then show ?thesis by blast
    qed
  next
    assume "\<exists>before after. c # cs = before @ sub @ after"
    then obtain before after where e: "c # cs = before @ sub @ after" by blast
    show "str_in sub (c # cs)"
    proof (cases before)
      case Nil
      with e have "starts_with (c # cs) sub" by (auto simp: starts_with_iff)
      then show ?thesis by simp
    next
      case (Cons b bs)
      with e have "cs = bs @ sub @ after" by simp
      with Cons.IH have "str_in sub cs" by blast
      then show ?thesis by simp
    qed
  qed
qed

text \<open>
  The tokens of \<^verbatim>\<open>split()\<close> are never empty and hold no whitespace, so no organization
  token is the empty string (which occurs in every text).
\<close>

lemma split_from_tokens:
  assumes "t \<in> set (split_from cur s)" and "\<forall>c \<in> set cur. \<not> is_space c"
  shows "t \<noteq> [] \<and> (\<forall>c \<in> set t. \<not> is_space c)"
  using assms
proof (induction s arbitrary: cur)
  case Nil
  then show ?case by (cases "cur = []") auto
next
  case (Cons c cs)
  show ?case
  proof (cases "is_space c")
    case True
    with Cons.prems(1) have "t = rev cur \<and> cur \<noteq> [] \<or> t \<in> set (split_from [] cs)"
      by (cases "cur = []") auto
    then show ?thesis
    proof
      assume "t = rev cur \<and> cur \<noteq> []"
      with Cons.prems(2) show ?thesis by simp
    next
      assume "t \<in> set (split_from [] cs)"
      then show ?thesis using Cons.IH [of "[]"] by simp
    qed
  next
    case False
    with Cons.prems(1) have "t \<in> set (split_from (c # cur) cs)" by simp
    moreover have "\<forall>x \<in> set (c # cur). \<not> is_space x"
      using False Cons.prems(2) by simp
    ultimately show ?thesis using Cons.IH [of "c # cur"] by blast
  qed
qed

lemma str_split_tokens:
  "t \<in> set (str_split s) \<Longrightarrow> t \<noteq> [] \<and> (\<forall>c \<in> set t. \<not> is_space c)"
  using split_from_tokens [of t "[]" s] by (simp add: str_split_def)

lemma org_tokens_nonempty: "t \<in> set (org_tokens org_name) \<Longrightarrow> t \<noteq> []"
  using str_split_tokens [of t "str_lower org_name"] by (simp add: org_tokens_def)

text \<open>
  Containment in the lowered text is case-insensitive containment: some piece of the
  text lowers to the word looked for.
\<close>

lemma str_in_lower:
  "str_in sub (str_lower s) \<longleftrightarrow> (\<exists>u. str_in u s \<and> str_lower u = sub)"
proof
  assume "str_in sub (str_lower s)"
  then obtain before after where h: "map lower_char s = before @ (sub @ after)"
    using str_in_iff [of sub "str_lower s"] by (auto simp: str_lower_def)
  from map_eq_append_conv [THEN iffD1, OF h]
  obtain us vs where s: "s = us @ vs" and vs: "sub @ after = map lower_char vs"
    by blast
  from append_eq_map_conv [THEN iffD1, OF vs]
  obtain u a where "vs = u @ a" and u: "sub = map lower_char u"
    by blast
  with s have "s = us @ u @ a" by simp
  then have "str_in u s"
    using str_in_iff [of u s] by blast
  with u show "\<exists>u. str_in u s \<and> str_lower u = sub"
    by (auto simp: str_lower_def)
next
  assume "\<exists>u. str_in u s \<and> str_lower u = sub"
  then obtain u where us: "str_in u s" and low: "map lower_char u = sub"
    by (auto simp: str_lower_def)
  from us obtain before after where "s = before @ u @ after"
    using str_in_iff [of u s] by blast
  then have "str_lower s = map lower_char before @ sub @ map lower_char after"
    using low by (simp add: str_lower_def)
  then show "str_in sub (str_lower s)"
    using str_in_iff [of sub "str_lower s"] by blast
qed

lemma mentions_goal_case_insensitive:
  "mentions_goal desc \<longleftrightarrow>
   (\<exists>u. str_in u desc \<and> (str_lower u = ''decarbon'' \<or> str_lower u = ''net zero''))"
  using str_in_lower [of "''decarbon''" desc] str_in_lower [of "''net zero''" desc]
  by (auto simp: mentions_goal_def)

section \<open>Search client: properties\<close>

lemma search_organization_final:
  "fst (search_organization w org_name) =
     Inr (case final_reply w of
            Failure \<Rightarrow> JArr []
          | Response status_code body \<Rightarrow> results_of_response status_code body)"
  by (auto simp: search_organization_def search_try_def requests_get_def final_reply_def
      sleep_def split: list.splits reply.splits prod.splits sum.splits)

lemma search_organization_trace:
  "trace (snd (search_organization w org_name)) =
     trace w @ (if rate_limited w
                then [Http_get (search_query org_name) 5, Sleep 5,
                      Http_get (search_query org_name) 5, Sleep 1]
                else [Http_get (search_query org_name) 5, Sleep 1])"
  by (auto simp: search_organization_def search_try_def requests_get_def rate_limited_def
      sleep_def split: list.splits reply.splits prod.splits sum.splits)

text \<open>
  C5. \<^verbatim>\<open>search_organization\<close> never raises: for every world and organization name it
  returns a value. When the reply to its last request is a transport-level failure, a
  response with a status other than 200, or a response with status 200 whose body does
  not parse, the value is the empty list.
\<close>

theorem search_errors_absorbed:
  "(\<exists>results. fst (search_organization w org_name) = Inr results) \<and>
   ((final_reply w = Failure \<or>
     (\<exists>status_code body. final_reply w = Response status_code body \<and>
        (status_code \<noteq> 200 \<or> body = None)))
    \<longrightarrow> fst (search_organization w org_name) = Inr (JArr []))"
  by (auto simp: search_organization_final results_of_response_def)

theorem search_errors_absorbed_witness:
  "final_reply (acme_world\<lparr>get_replies := [Response 429 None, Response 503 None]\<rparr>)
     = Response 503 None \<and>
   fst (search_organization
          (acme_world\<lparr>get_replies := [Response 429 None, Response 503 None]\<rparr>) ''Acme Corp'')
     = Inr (JArr [])"
  using search_errors_absorbed
    [of "acme_world\<lparr>get_replies := [Response 429 None, Response 503 None]\<rparr>" "''Acme Corp''"]
  by (simp add: final_reply_def acme_world_def)

text \<open>
  C6. The effects of one call are: one search request; after it, exactly when its reply
  is a response with status 429, a sleep of 5 and one more request; and the final sleep
  of 1. So there are at most two requests. When the first reply has status 429 and the
  retry answers 200 with a body whose \<^verbatim>\<open>web\<close> entry is a dict with the list of one result
  under \<^verbatim>\<open>results\<close>, whatever else the body and that dict hold, the list of that one
  result is returned.
\<close>

theorem rate_limit_retry:
  "trace (snd (search_organization w org_name)) =
     trace w @ (if rate_limited w
                then [Http_get (search_query org_name) 5, Sleep 5,
                      Http_get (search_query org_name) 5, Sleep 1]
                else [Http_get (search_query org_name) 5, Sleep 1]) \<and>
   (\<forall>body1 body web r later.
      get_replies w = Response 429 body1 # Response 200 (Some (JObj body)) # later \<and>
      map_of body ''web'' = Some (JObj web) \<and>
      map_of web ''results'' = Some (JArr [r])
      \<longrightarrow> fst (search_organization w org_name) = Inr (JArr [r]))"
  by (auto simp: search_organization_trace search_organization_final final_reply_def
      results_of_response_def web_results_def dict_get_def)

theorem rate_limit_retry_witness:
  "rate_limited
     (acme_world\<lparr>get_replies := [Response 429 None, Response 200 (Some more_body)]\<rparr>) \<and>
   trace (snd (search_organization
      (acme_world\<lparr>get_replies := [Response 429 None, Response 200 (Some more_body)]\<rparr>)
      ''Acme Corp'')) =
     [Http_get (search_query ''Acme Corp'') 5, Sleep 5,
      Http_get (search_query ''Acme Corp'') 5, Sleep 1] \<and>
   fst (search_organization
      (acme_world\<lparr>get_replies := [Response 429 None, Response 200 (Some more_body)]\<rparr>)
      ''Acme Corp'') = Inr (JArr [acme_result])"
  using rate_limit_retry
    [of "acme_world\<lparr>get_replies := [Response 429 None, Response 200 (Some more_body)]\<rparr>"
      "''Acme Corp''"]
  by (simp add: rate_limited_def acme_world_def more_body_def)

text \<open>The scenario of the specification, with the body that holds nothing else.\<close>

lemma acme_search:
  "fst (search_organization acme_world ''Acme Corp'') = Inr (JArr [acme_result]) \<and>
   trace (snd (search_organization acme_world ''Acme Corp'')) =
     [Http_get (search_query ''Acme Corp'') 5, Sleep 5,
      Http_get (search_query ''Acme Corp'') 5, Sleep 1]"
  by (simp add: search_organization_trace search_organization_final final_reply_def
      results_of_response_def web_results_def dict_get_def rate_limited_def acme_world_def
      acme_body_def)

text \<open>
  C10. When the reply to the last request has status 200 and its body is a dict whose
  \<^verbatim>\<open>web\<close> entry is a dict with a \<^verbatim>\<open>results\<close> entry, \<^verbatim>\<open>search_organization\<close> returns that entry as
  it is, whatever its length and the shape of its items, and the driver hands the same
  value to \<^verbatim>\<open>analyze_search_results\<close>.
\<close>

theorem results_verbatim:
  assumes "final_reply w = Response 200 (Some (JObj body))"
    and "map_of body ''web'' = Some (JObj web)"
    and "map_of web ''results'' = Some results"
  shows "fst (search_organization w org_name) = Inr results \<and>
     process_orgs lib w [org_name] =
       (case analyze_search_results lib (snd (search_organization w org_name)) org_name results of
          (Inl e, w2) \<Rightarrow> (Inl e, w2)
        | (Inr analysis, w2) \<Rightarrow> (Inr [analysis], sleep 1 w2))"
proof -
  have r: "fst (search_organization w org_name) = Inr results"
    using assms
    by (simp add: search_organization_final results_of_response_def web_results_def
        dict_get_def)
  then obtain w1 where w1: "search_organization w org_name = (Inr results, w1)"
    by (cases "search_organization w org_name") simp
  show ?thesis
  proof (cases "analyze_search_results lib w1 org_name results")
    case (Pair a w2)
    with w1 show ?thesis by (cases a) simp_all
  qed
qed

theorem results_verbatim_witness:
  "fst (search_organization
          (acme_world\<lparr>get_replies :=
             [Response 200 (Some (JObj [(''web'', JObj [(''results'',
                JArr [JInt 1, JNull, JObj [], JObj [], JObj [], JObj [], JStr ''x''])])]))]\<rparr>)
          ''Acme Corp'')
     = Inr (JArr [JInt 1, JNull, JObj [], JObj [], JObj [], JObj [], JStr ''x''])"
  using results_verbatim
    [of "acme_world\<lparr>get_replies :=
             [Response 200 (Some (JObj [(''web'', JObj [(''results'',
                JArr [JInt 1, JNull, JObj [], JObj [], JObj [], JObj [], JStr ''x''])])]))]\<rparr>"
        "[(''web'', JObj [(''results'',
                JArr [JInt 1, JNull, JObj [], JObj [], JObj [], JObj [], JStr ''x''])])]"
        "[(''results'', JArr [JInt 1, JNull, JObj [], JObj [], JObj [], JObj [], JStr ''x''])]"
        "JArr [JInt 1, JNull, JObj [], JObj [], JObj [], JObj [], JStr ''x'']"
        "''Acme Corp''" example_lib]
  by (simp add: final_reply_def acme_world_def)

section \<open>Goal extractor: the empty result list\<close>

text \<open>
  C4. With an empty result list \<^verbatim>\<open>analyze_search_results\<close> returns the record below and
  leaves the world as it was: no inference request is sent and no reply is consumed.
\<close>

theorem empty_results_short_circuit:
  "analyze_search_results lib w org_name (JArr []) =
     (Inr [(''organization'', JStr org_name), (''has_goal'', JStr ''Not Found''),
           (''target_date'', JNull), (''source_url'', JNull), (''description'', JStr [])], w)"
  by (simp add: analyze_search_results_def not_found_record_def)

section \<open>Pipeline driver: the empty organization list\<close>

lemma summarize_empty: "summarize lib [] = Inl KeyError"
  by (simp add: summarize_def has_column_def)

lemma true_div_zero: "true_div n 0 = Inl ZeroDivisionError"
  by (simp add: true_div_def)

text \<open>
  C1. With both keys set and an empty organization list the driver writes the empty table
  and then raises: the frame has no \<^verbatim>\<open>has_goal\<close> column, so line 263 raises KeyError, and
  the division of line 270 has no guard against a zero total either.
\<close>

theorem empty_org_list_raises:
  "analyze_decarbonization_goals lib
     (w\<lparr>environ := [(''BRAVE_API_KEY'', ''k1''), (''ANTHROPIC_API_KEY'', ''k2'')]\<rparr>) [] =
   (Inl KeyError,
    write_csv [] (w\<lparr>environ := [(''BRAVE_API_KEY'', ''k1''), (''ANTHROPIC_API_KEY'', ''k2'')]\<rparr>))"
  by (simp add: analyze_decarbonization_goals_def missing_keys_def key_missing_def getenv_def
      summarize_empty)

section \<open>Text matcher: properties\<close>

lemmas url_defs = url_belongs_to_org_def urlsplit_netloc_def netloc_of_def after_scheme_def
  remove_unsafe_def lstrip_c0_def is_ascii_alpha_def is_scheme_char_def hostname_of_def

lemmas token_defs = org_tokens_def str_split_def str_lower_def is_upper_def is_space_def
  common_words_def

text \<open>
  C2. \<^verbatim>\<open>url_belongs_to_org\<close> is not total: on a URL whose authority has an opening square
  bracket and no closing one, \<^verbatim>\<open>urlparse\<close> raises ValueError, and nothing catches it.
\<close>

theorem unbalanced_bracket_url_raises:
  "url_belongs_to_org lib org_name (JStr ''http://['') = Inl ValueError"
  by (simp add: url_defs)

text \<open>
  Apart from that failure the function returns a boolean exactly when the parser returns,
  and the parser accepts every URL without a square bracket.
\<close>

lemma url_belongs_to_org_returns:
  "(\<exists>b. url_belongs_to_org lib org_name url = Inr b) \<longleftrightarrow>
   (\<exists>h. urlparse_hostname lib url = Inr h)"
  by (auto simp: url_belongs_to_org_def split: sum.splits)

lemma netloc_chars:
  "set (netloc_of (after_scheme (remove_unsafe (lstrip_c0 url)))) \<subseteq> set url"
proof -
  have a: "set (lstrip_c0 url) \<subseteq> set url"
    by (auto simp: lstrip_c0_def dest: set_dropWhileD)
  have b: "set (remove_unsafe s) \<subseteq> set s" for s
    by (auto simp: remove_unsafe_def)
  have c: "set (after_scheme s) \<subseteq> set s" for s
    by (auto simp: after_scheme_def Let_def split: list.splits dest: in_set_dropD)
  have d: "set (netloc_of s) \<subseteq> set s" for s
    by (auto simp: netloc_of_def dest!: set_takeWhileD dest: in_set_dropD)
  from a b c d show ?thesis by blast
qed

lemma bracket_free_url_parses:
  assumes "CHR ''['' \<notin> set url" and "CHR '']'' \<notin> set url"
  shows "\<exists>h. urlparse_hostname lib (JStr url) = Inr h"
proof -
  from assms netloc_chars [of url]
  have "CHR ''['' \<notin> set (netloc_of (after_scheme (remove_unsafe (lstrip_c0 url))))"
    and "CHR '']'' \<notin> set (netloc_of (after_scheme (remove_unsafe (lstrip_c0 url))))"
    by blast+
  then show ?thesis
    by (simp add: urlsplit_netloc_def)
qed

text \<open>
  On an interpreter with the stricter validation, text after the closing bracket that
  is not a port is rejected as well.
\<close>

lemma text_after_bracket_raises:
  "checks_bracketed_netloc lib \<Longrightarrow>
   url_belongs_to_org lib org_name (JStr ''http://[::1]acme.com/'') = Inl ValueError"
  by (simp add: url_defs bracketed_netloc_ok_def)

lemma org_tokens_stopwords:
  "set (str_split (str_lower org_name)) \<subseteq> set common_words \<Longrightarrow> org_tokens org_name = []"
  by (auto simp: org_tokens_def filter_empty_conv)

lemma result_matches_org_typed:
  "is_str (dict_get d ''title'' (JStr [])) \<Longrightarrow> is_str (dict_get d ''description'' (JStr [])) \<Longrightarrow>
   \<exists>b. result_matches_org org_name (JObj d) = Inr b"
  by (auto simp: result_matches_org_def elim!: is_str.elims)

text \<open>
  What the empty token list gives. For an organization name whose whitespace tokens, after
  lowering, are all stopwords: \<^verbatim>\<open>result_matches_org\<close> never returns true, and returns false
  for every result whose title and description are strings or absent; \<^verbatim>\<open>url_belongs_to_org\<close>
  never returns true, and returns false for every URL that the URL parser accepts.
\<close>

lemma stopwords_only_no_match:
  assumes "set (str_split (str_lower org_name)) \<subseteq> set common_words"
  shows "result_matches_org org_name result \<noteq> Inr True \<and>
     (is_str (dict_get d ''title'' (JStr [])) \<and> is_str (dict_get d ''description'' (JStr []))
        \<longrightarrow> result_matches_org org_name (JObj d) = Inr False) \<and>
     url_belongs_to_org lib org_name url \<noteq> Inr True \<and>
     ((\<exists>h. urlparse_hostname lib url = Inr h)
        \<longrightarrow> url_belongs_to_org lib org_name url = Inr False)"
proof -
  have none: "org_tokens org_name = []"
    using assms by (rule org_tokens_stopwords)
  have a: "result_matches_org org_name result \<noteq> Inr True"
    using none by (auto simp: result_matches_org_def split: sum.splits)
  have b: "is_str (dict_get d ''title'' (JStr [])) \<and> is_str (dict_get d ''description'' (JStr []))
        \<longrightarrow> result_matches_org org_name (JObj d) = Inr False"
    using none by (auto simp: result_matches_org_def elim!: is_str.elims)
  have c: "url_belongs_to_org lib org_name url \<noteq> Inr True"
    using none by (auto simp: url_belongs_to_org_def split: sum.splits)
  have e: "(\<exists>h. urlparse_hostname lib url = Inr h)
        \<longrightarrow> url_belongs_to_org lib org_name url = Inr False"
    using none by (auto simp: url_belongs_to_org_def)
  from a b c e show ?thesis by blast
qed

lemma stopwords_only_example:
  "set (str_split (str_lower ''The Company of - Inc'')) \<subseteq> set common_words \<and>
   result_matches_org ''The Company of - Inc'' acme_result = Inr False \<and>
   url_belongs_to_org example_lib ''The Company of - Inc'' (JStr ''https://the-company.com/'')
     = Inr False"
proof -
  have stop: "set (str_split (str_lower ''The Company of - Inc'')) \<subseteq> set common_words"
    by (simp add: token_defs)
  have parsed: "urlparse_hostname example_lib (JStr ''https://the-company.com/'')
      = Inr (Some ''the-company.com'')"
    by (simp add: url_defs str_lower_def is_upper_def example_lib_def)
  show ?thesis
    using stop parsed
      stopwords_only_no_match [OF stop, of acme_result
        "[(''title'', JStr ''Acme decarbonization''),
          (''description'', JStr ''Acme targets net zero by 2035''),
          (''url'', JStr ''https://acme.com/press'')]"
        example_lib "JStr ''https://the-company.com/''"]
    by (simp add: acme_result_def dict_get_def)
qed

text \<open>
  C9. For an organization name whose tokens are all stopwords \<^verbatim>\<open>url_belongs_to_org\<close> should
  return false for every URL. It does not on a URL that the parser rejects: the only
  token of the name below is a stopword, and the call raises ValueError, because
  \<^verbatim>\<open>urlparse\<close> is called before the tokens are looked at and nothing catches what it
  raises. This is the failure of C2 again.
\<close>

theorem stopwords_only_url_raises:
  "str_split (str_lower ''The'') = [''the''] \<and> ''the'' \<in> set common_words \<and>
   org_tokens ''The'' = [] \<and>
   url_belongs_to_org lib ''The'' (JStr ''http://['') = Inl ValueError"
  by (simp add: url_defs token_defs)

section \<open>Goal extractor: properties of the fallback stage\<close>

lemma map_of_dict_set: "map_of (dict_set d k v) = (map_of d)(k \<mapsto> v)"
  by (induction d) auto

lemma passes_checks_True:
  "passes_checks lib org_name r = Inr True \<longleftrightarrow>
     result_matches_org org_name r = Inr True \<and>
     (\<exists>url. get_method r ''url'' (JStr []) = Inr url \<and>
            url_belongs_to_org lib org_name url = Inr True)"
  by (auto simp: passes_checks_def split: sum.splits if_splits)

lemma find_source_url_Some:
  "find_source_url lib org_name rs = Inr (Some url) \<Longrightarrow>
   \<exists>r \<in> set rs. get_method r ''url'' (JStr []) = Inr url \<and> truthy url \<and>
      result_matches_org org_name r = Inr True \<and> url_belongs_to_org lib org_name url = Inr True"
proof (induction rs)
  case Nil
  then show ?case by simp
next
  case (Cons r rs)
  then show ?case
    by (auto split: sum.splits if_splits)
qed

lemma find_description_Some:
  "find_description lib org_name rs = Inr (Some stored) \<Longrightarrow>
   \<exists>r \<in> set rs. \<exists>desc. get_method r ''description'' (JStr []) = Inr (JStr desc) \<and>
      mentions_goal desc \<and> passes_checks lib org_name r = Inr True \<and>
      stored = take 250 (str_strip desc)"
proof (induction rs)
  case Nil
  then show ?case by simp
next
  case (Cons r rs)
  then show ?case
    by (auto split: sum.splits if_splits json.splits)
qed

text \<open>Each fallback writes its own key only.\<close>

lemma fallback_source_url_keys:
  "fallback_source_url lib org_name rs p = Inr p' \<Longrightarrow> k \<noteq> ''source_url'' \<Longrightarrow>
   map_of p' k = map_of p k"
  by (auto simp: fallback_source_url_def map_of_dict_set
      split: if_splits sum.splits option.splits)

lemma fallback_target_date_keys:
  "fallback_target_date lib org_name rs p = Inr p' \<Longrightarrow> k \<noteq> ''target_date'' \<Longrightarrow>
   map_of p' k = map_of p k"
  by (auto simp: fallback_target_date_def map_of_dict_set
      split: if_splits sum.splits option.splits)

lemma fallback_description_keys:
  "fallback_description lib org_name rs p = Inr p' \<Longrightarrow> k \<noteq> ''description'' \<Longrightarrow>
   map_of p' k = map_of p k"
  by (auto simp: fallback_description_def map_of_dict_set
      split: if_splits sum.splits option.splits)

lemma fallback_stage_steps:
  "fallback_stage lib org_name rs p = Inr p' \<Longrightarrow>
   \<exists>p1 p2. fallback_source_url lib org_name rs p = Inr p1 \<and>
           fallback_target_date lib org_name rs p1 = Inr p2 \<and>
           fallback_description lib org_name rs p2 = Inr p'"
  by (auto simp: fallback_stage_def split: sum.splits)

lemma fallback_stage_has_goal:
  assumes "fallback_stage lib org_name rs p = Inr p'"
  shows "map_of p' ''has_goal'' = map_of p ''has_goal''"
proof -
  from assms obtain p1 p2 where
    s1: "fallback_source_url lib org_name rs p = Inr p1" and
    s2: "fallback_target_date lib org_name rs p1 = Inr p2" and
    s3: "fallback_description lib org_name rs p2 = Inr p'"
    using fallback_stage_steps by blast
  show ?thesis
    using fallback_source_url_keys [OF s1, of "''has_goal''"]
      fallback_target_date_keys [OF s2, of "''has_goal''"]
      fallback_description_keys [OF s3, of "''has_goal''"] by simp
qed

lemma fallback_source_url_set:
  "fallback_source_url lib org_name rs p = Inr p' \<Longrightarrow>
   map_of p' ''source_url'' \<noteq> map_of p ''source_url'' \<Longrightarrow>
   \<exists>r \<in> set rs. \<exists>url. get_method r ''url'' (JStr []) = Inr url \<and>
      map_of p' ''source_url'' = Some url \<and>
      result_matches_org org_name r = Inr True \<and> url_belongs_to_org lib org_name url = Inr True"
  by (auto simp: fallback_source_url_def map_of_dict_set
      split: if_splits sum.splits option.splits dest!: find_source_url_Some)

lemma fallback_description_set:
  "fallback_description lib org_name rs p = Inr p' \<Longrightarrow>
   map_of p' ''description'' \<noteq> map_of p ''description'' \<Longrightarrow>
   \<exists>r \<in> set rs. \<exists>desc url. get_method r ''description'' (JStr []) = Inr (JStr desc) \<and>
      get_method r ''url'' (JStr []) = Inr url \<and> mentions_goal desc \<and>
      result_matches_org org_name r = Inr True \<and> url_belongs_to_org lib org_name url = Inr True \<and>
      map_of p' ''description'' = Some (JStr (take 250 (str_strip desc)))"
proof -
  assume ret: "fallback_description lib org_name rs p = Inr p'"
    and changed: "map_of p' ''description'' \<noteq> map_of p ''description''"
  from ret changed obtain stored where
    found: "find_description lib org_name rs = Inr (Some stored)" and
    p': "p' = dict_set p ''description'' (JStr stored)"
    by (auto simp: fallback_description_def split: if_splits sum.splits option.splits)
  from find_description_Some [OF found] obtain r desc where
    r: "r \<in> set rs" "get_method r ''description'' (JStr []) = Inr (JStr desc)"
      "mentions_goal desc" "passes_checks lib org_name r = Inr True"
      "stored = take 250 (str_strip desc)"
    by blast
  from r(4) obtain url where
    u: "result_matches_org org_name r = Inr True" "get_method r ''url'' (JStr []) = Inr url"
      "url_belongs_to_org lib org_name url = Inr True"
    by (auto simp: passes_checks_True)
  have "map_of p' ''description'' = Some (JStr (take 250 (str_strip desc)))"
    using p' r(5) by (simp add: map_of_dict_set)
  with r u show ?thesis by blast
qed

text \<open>Evaluation of the checks and of the stage on the example results.\<close>

lemmas eval_defs = fallback_stage_def fallback_source_url_def fallback_target_date_def
  fallback_description_def passes_checks_def result_matches_org_def dict_get_def
  mentions_goal_def str_strip_def is_word_def is_digit_def url_defs token_defs
  acme_result_def news_result_def

lemma acme_tokens: "org_tokens ''Acme Corp'' = [''acme'', ''corp'']"
  by (simp add: token_defs)

lemma acme_matches: "result_matches_org ''Acme Corp'' acme_result = Inr True"
  by (simp add: result_matches_org_def acme_tokens acme_result_def dict_get_def str_lower_def
      is_upper_def)

lemma acme_belongs:
  "url_belongs_to_org lib ''Acme Corp'' (JStr ''https://acme.com/press'') = Inr True"
  by (simp add: url_defs acme_tokens str_lower_def is_upper_def)

lemma news_fails: "passes_checks lib ''Acme Corp'' news_result = Inr False"
  by (simp add: passes_checks_def result_matches_org_def acme_tokens news_result_def
      dict_get_def str_lower_def is_upper_def url_defs)

lemma acme_fallback:
  "fallback_stage lib ''Acme Corp'' [news_result, acme_result] [] =
     Inr [(''source_url'', JStr ''https://acme.com/press''), (''target_date'', JStr ''2035''),
          (''description'', JStr ''Acme targets net zero by 2035'')]"
  by (simp add: eval_defs)

text \<open>
  C8. When the fallback stage returns and has changed the \<^verbatim>\<open>source_url\<close> entry, the new
  value is the URL of a search result for which \<^verbatim>\<open>result_matches_org\<close> and
  \<^verbatim>\<open>url_belongs_to_org\<close> both return true. When it has changed the \<^verbatim>\<open>description\<close> entry, the
  new value comes from a result whose description, lowered, contains \<^verbatim>\<open>decarbon\<close> or
  \<^verbatim>\<open>net zero\<close> and which passes both checks; the value is that description stripped and
  cut to its first 250 characters.
\<close>

theorem fallback_values_official:
  assumes "fallback_stage lib org_name rs p = Inr p'"
  shows "(map_of p' ''source_url'' \<noteq> map_of p ''source_url'' \<longrightarrow>
           (\<exists>r \<in> set rs. \<exists>url. get_method r ''url'' (JStr []) = Inr url \<and>
              map_of p' ''source_url'' = Some url \<and>
              result_matches_org org_name r = Inr True \<and>
              url_belongs_to_org lib org_name url = Inr True)) \<and>
         (map_of p' ''description'' \<noteq> map_of p ''description'' \<longrightarrow>
           (\<exists>r \<in> set rs. \<exists>desc url.
              get_method r ''description'' (JStr []) = Inr (JStr desc) \<and>
              get_method r ''url'' (JStr []) = Inr url \<and>
              mentions_goal desc \<and>
              result_matches_org org_name r = Inr True \<and>
              url_belongs_to_org lib org_name url = Inr True \<and>
              map_of p' ''description'' = Some (JStr (take 250 (str_strip desc))) \<and>
              length (take 250 (str_strip desc)) \<le> 250))"
proof -
  from assms obtain p1 p2 where
    s1: "fallback_source_url lib org_name rs p = Inr p1" and
    s2: "fallback_target_date lib org_name rs p1 = Inr p2" and
    s3: "fallback_description lib org_name rs p2 = Inr p'"
    using fallback_stage_steps by blast
  have url_kept: "map_of p' ''source_url'' = map_of p1 ''source_url''"
    using fallback_target_date_keys [OF s2, of "''source_url''"]
      fallback_description_keys [OF s3, of "''source_url''"] by simp
  have desc_kept: "map_of p2 ''description'' = map_of p ''description''"
    using fallback_source_url_keys [OF s1, of "''description''"]
      fallback_target_date_keys [OF s2, of "''description''"] by simp
  have a: "map_of p' ''source_url'' \<noteq> map_of p ''source_url'' \<longrightarrow>
           (\<exists>r \<in> set rs. \<exists>url. get_method r ''url'' (JStr []) = Inr url \<and>
              map_of p' ''source_url'' = Some url \<and>
              result_matches_org org_name r = Inr True \<and>
              url_belongs_to_org lib org_name url = Inr True)"
    using fallback_source_url_set [OF s1] url_kept by simp
  have b: "map_of p' ''description'' \<noteq> map_of p ''description'' \<longrightarrow>
           (\<exists>r \<in> set rs. \<exists>desc url.
              get_method r ''description'' (JStr []) = Inr (JStr desc) \<and>
              get_method r ''url'' (JStr []) = Inr url \<and>
              mentions_goal desc \<and>
              result_matches_org org_name r = Inr True \<and>
              url_belongs_to_org lib org_name url = Inr True \<and>
              map_of p' ''description'' = Some (JStr (take 250 (str_strip desc))) \<and>
              length (take 250 (str_strip desc)) \<le> 250)"
  proof
    assume "map_of p' ''description'' \<noteq> map_of p ''description''"
    then have "map_of p' ''description'' \<noteq> map_of p2 ''description''"
      using desc_kept by simp
    from fallback_description_set [OF s3 this] show "\<exists>r \<in> set rs. \<exists>desc url.
              get_method r ''description'' (JStr []) = Inr (JStr desc) \<and>
              get_method r ''url'' (JStr []) = Inr url \<and>
              mentions_goal desc \<and>
              result_matches_org org_name r = Inr True \<and>
              url_belongs_to_org lib org_name url = Inr True \<and>
              map_of p' ''description'' = Some (JStr (take 250 (str_strip desc))) \<and>
              length (take 250 (str_strip desc)) \<le> 250"
      by fastforce
  qed
  from a b show ?thesis by blast
qed

theorem fallback_values_official_witness:
  "fallback_stage example_lib ''Acme Corp'' [news_result, acme_result] [] =
     Inr [(''source_url'', JStr ''https://acme.com/press''), (''target_date'', JStr ''2035''),
          (''description'', JStr ''Acme targets net zero by 2035'')] \<and>
   (\<exists>r \<in> set [news_result, acme_result].
      get_method r ''url'' (JStr []) = Inr (JStr ''https://acme.com/press'') \<and>
      result_matches_org ''Acme Corp'' r = Inr True \<and>
      url_belongs_to_org example_lib ''Acme Corp'' (JStr ''https://acme.com/press'') = Inr True) \<and>
   (\<exists>r \<in> set [news_result, acme_result]. \<exists>desc url.
      get_method r ''description'' (JStr []) = Inr (JStr desc) \<and>
      get_method r ''url'' (JStr []) = Inr url \<and>
      mentions_goal desc \<and>
      result_matches_org ''Acme Corp'' r = Inr True \<and>
      url_belongs_to_org example_lib ''Acme Corp'' url = Inr True \<and>
      ''Acme targets net zero by 2035'' = take 250 (str_strip desc))"
  using fallback_values_official [OF acme_fallback [of example_lib]] acme_fallback [of example_lib]
  by simp

section \<open>Goal extractor: the year of the target date\<close>

text \<open>
  The regular-expression search of line 200 finds the first year token of the description:
  a match of \<^verbatim>\<open>\b20\d{2}\b\<close> is a maximal run of word characters that consists of \<^verbatim>\<open>20\<close> and two
  digits.
\<close>

lemma is_digit_word: "is_digit c \<Longrightarrow> is_word c"
  by (auto simp: is_digit_def is_word_def Let_def)

lemma is_word_2: "is_word CHR ''2''"
  by (simp add: is_word_def)

lemma is_word_0: "is_word CHR ''0''"
  by (simp add: is_word_def)

lemma word_tokens_from_runs:
  "word_tokens_from cur s =
     (if rev cur @ takeWhile is_word s = [] then [] else [rev cur @ takeWhile is_word s])
     @ word_tokens_from [] (dropWhile is_word s)"
  by (induction s arbitrary: cur) auto

lemma year_here_token: "year_here s \<longleftrightarrow> is_year_token (takeWhile is_word s)"
proof (induction s rule: year_here.induct)
  case (1 a b c d rest)
  show ?case
    by (cases rest) (auto simp: is_digit_word is_word_2 is_word_0)
qed (auto split: if_splits)

lemma year_here_take: "year_here s \<Longrightarrow> take 4 s = takeWhile is_word s"
proof (induction s rule: year_here.induct)
  case (1 a b c d rest)
  then show ?case
    by (cases rest) (auto simp: is_digit_word is_word_2 is_word_0)
qed auto

text \<open>
  Inside a word (\<open>prev\<close> true) the search resumes after the word; at a word's start it
  finds the word when it is a year token and resumes after it otherwise.
\<close>

lemma search_year_from_tokens:
  "search_year_from True s = find is_year_token (word_tokens_from [] (dropWhile is_word s)) \<and>
   search_year_from False s = find is_year_token (word_tokens_from [] s)"
proof (induction s)
  case Nil
  show ?case by simp
next
  case (Cons c cs)
  show ?case
  proof (cases "is_word c")
    case True
    have run: "word_tokens_from [] (c # cs) =
        takeWhile is_word (c # cs) # word_tokens_from [] (dropWhile is_word cs)"
      using True word_tokens_from_runs [of "[]" "c # cs"] by simp
    show ?thesis
    proof (cases "year_here (c # cs)")
      case yes: True
      then have "is_year_token (takeWhile is_word (c # cs))"
        using year_here_token [of "c # cs"] by blast
      with yes True Cons run show ?thesis
        using year_here_take [OF yes] by simp
    next
      case no: False
      then have "\<not> is_year_token (takeWhile is_word (c # cs))"
        using year_here_token [of "c # cs"] by blast
      with no True Cons run show ?thesis by simp
    qed
  next
    case False
    then have "\<not> year_here (c # cs)"
      by (cases cs rule: year_here.cases) (auto simp: is_word_2)
    with False Cons show ?thesis by simp
  qed
qed

lemma search_year_first_token: "search_year_from False desc = first_year_token desc"
  by (simp add: first_year_token_def word_tokens_def search_year_from_tokens)

lemma find_target_date_skip:
  "\<forall>x \<in> set pre. passes_checks lib org_name x = Inr False \<or>
      (passes_checks lib org_name x = Inr True \<and>
       (\<exists>d. get_method x ''description'' (JStr []) = Inr (JStr d) \<and> first_year_token d = None))
   \<Longrightarrow> find_target_date lib org_name (pre @ rest) = find_target_date lib org_name rest"
proof (induction pre)
  case Nil
  show ?case by simp
next
  case (Cons x pre)
  then show ?case
    by (auto simp: search_year_first_token)
qed

text \<open>
  The fallback keeps a true \<^verbatim>\<open>target_date\<close>, and changes nothing when every result fails a
  check or has no year token.
\<close>

lemma fallback_target_date_present:
  "truthy (dict_get p ''target_date'' JNull) \<Longrightarrow>
   fallback_target_date lib org_name rs p = Inr p"
  by (simp add: fallback_target_date_def)

lemma fallback_target_date_none:
  assumes "\<forall>x \<in> set rs. passes_checks lib org_name x = Inr False \<or>
      (passes_checks lib org_name x = Inr True \<and>
       (\<exists>d. get_method x ''description'' (JStr []) = Inr (JStr d) \<and> first_year_token d = None))"
  shows "fallback_target_date lib org_name rs p = Inr p"
  using find_target_date_skip [OF assms, of "[]"]
  by (simp add: fallback_target_date_def)

lemma acme_year: "first_year_token ''Acme targets net zero by 2035'' = Some ''2035''"
  by (simp add: first_year_token_def word_tokens_def is_word_def is_digit_def)

text \<open>
  What the loop does where the checks return. Let the parsed answer have no true
  \<^verbatim>\<open>target_date\<close> (absent, null or empty). Let \<open>r\<close> be a search result that passes both checks
  and whose description has \<open>year\<close> as its first year token, and let the checks return
  on every result before \<open>r\<close> in the list, each failing a check or passing both with a
  description that has no year token. Then the target-date fallback returns the answer
  with \<^verbatim>\<open>target_date\<close> set to \<open>year\<close>.
\<close>

lemma target_date_from_first_year_token:
  assumes absent: "\<not> truthy (dict_get p ''target_date'' JNull)"
    and earlier: "\<forall>x \<in> set pre. passes_checks lib org_name x = Inr False \<or>
      (passes_checks lib org_name x = Inr True \<and>
       (\<exists>d. get_method x ''description'' (JStr []) = Inr (JStr d) \<and> first_year_token d = None))"
    and matches: "result_matches_org org_name r = Inr True"
    and url: "get_method r ''url'' (JStr []) = Inr url"
    and belongs: "url_belongs_to_org lib org_name url = Inr True"
    and desc: "get_method r ''description'' (JStr []) = Inr (JStr desc)"
    and year: "first_year_token desc = Some year"
  shows "fallback_target_date lib org_name (pre @ r # post) p =
           Inr (dict_set p ''target_date'' (JStr year))"
proof -
  have "passes_checks lib org_name r = Inr True"
    using matches url belongs by (auto simp: passes_checks_True)
  then have "find_target_date lib org_name (r # post) = Inr (Some year)"
    using desc year by (simp add: search_year_first_token)
  then have "find_target_date lib org_name (pre @ r # post) = Inr (Some year)"
    using find_target_date_skip [OF earlier, of "r # post"] by simp
  then show ?thesis
    using absent by (simp add: fallback_target_date_def)
qed

lemma target_date_example:
  "passes_checks example_lib ''Acme Corp'' news_result = Inr False \<and>
   result_matches_org ''Acme Corp'' acme_result = Inr True \<and>
   url_belongs_to_org example_lib ''Acme Corp'' (JStr ''https://acme.com/press'') = Inr True \<and>
   first_year_token ''Acme targets net zero by 2035'' = Some ''2035'' \<and>
   fallback_target_date example_lib ''Acme Corp'' [news_result, acme_result] []
     = Inr [(''target_date'', JStr ''2035'')]"
proof -
  have absent: "\<not> truthy (dict_get [] ''target_date'' JNull)"
    by (simp add: dict_get_def)
  have earlier: "\<forall>x \<in> set [news_result].
      passes_checks example_lib ''Acme Corp'' x = Inr False \<or>
      (passes_checks example_lib ''Acme Corp'' x = Inr True \<and>
       (\<exists>d. get_method x ''description'' (JStr []) = Inr (JStr d) \<and> first_year_token d = None))"
    by (simp add: news_fails)
  have url: "get_method acme_result ''url'' (JStr []) = Inr (JStr ''https://acme.com/press'')"
    by (simp add: acme_result_def dict_get_def)
  have desc: "get_method acme_result ''description'' (JStr [])
      = Inr (JStr ''Acme targets net zero by 2035'')"
    by (simp add: acme_result_def dict_get_def)
  show ?thesis
    using target_date_from_first_year_token
      [OF absent earlier acme_matches url acme_belongs desc acme_year, of "[]"]
      news_fails acme_matches acme_belongs acme_year
    by simp
qed

lemma bad_result_raises: "passes_checks lib ''Acme Corp'' bad_result = Inl ValueError"
  by (simp add: passes_checks_def result_matches_org_def acme_tokens bad_result_def
      dict_get_def str_lower_def is_upper_def url_defs)

text \<open>
  C7. With no true \<^verbatim>\<open>target_date\<close> in the parsed answer, the fallback should set it to the
  first year token of the first search result that passes both checks and has one. It
  does not when a check raises on an earlier result. Below, the first result does not
  pass both checks (its URL makes \<^verbatim>\<open>urlparse\<close> raise), the second passes both and has the
  year token 2035, and the fallback raises ValueError instead of storing 2035: line 198
  calls \<^verbatim>\<open>url_belongs_to_org\<close> on the first result and nothing catches what line 42 raises.
  This is the failure of C2 again.
\<close>

theorem target_date_fallback_raises:
  "passes_checks lib ''Acme Corp'' bad_result = Inl ValueError \<and>
   result_matches_org ''Acme Corp'' acme_result = Inr True \<and>
   url_belongs_to_org lib ''Acme Corp'' (JStr ''https://acme.com/press'') = Inr True \<and>
   first_year_token ''Acme targets net zero by 2035'' = Some ''2035'' \<and>
   dict_get [(''source_url'', JStr ''https://acme.com/press'')] ''target_date'' JNull = JNull \<and>
   fallback_target_date lib ''Acme Corp'' [bad_result, acme_result]
     [(''source_url'', JStr ''https://acme.com/press'')] = Inl ValueError"
  by (simp add: bad_result_raises acme_matches acme_belongs acme_year
      fallback_target_date_def dict_get_def)

text \<open>
  The whole function on these results, with an inference answer that gives the source
  URL and no target date: the source-URL fallback is skipped, and the function raises.
\<close>

lemma source_infer:
  "infer source_lib (acme_world\<lparr>post_replies := [Response 200 (Some source_answer)]\<rparr>) =
     ([(''source_url'', JStr ''https://acme.com/press'')],
      acme_world\<lparr>post_replies := [], trace := [Http_post]\<rparr>)"
  by (simp add: infer_def requests_post_def acme_world_def parse_answer_def
      claude_response_text_def source_answer_def dict_get_def json_candidate_def source_lib_def
      example_lib_def)

lemma bad_result_analysis:
  "analyze_search_results source_lib
     (acme_world\<lparr>post_replies := [Response 200 (Some source_answer)]\<rparr>) ''Acme Corp''
     (JArr [bad_result, acme_result]) =
     (Inl ValueError, acme_world\<lparr>post_replies := [], trace := [Http_post]\<rparr>)"
  by (simp add: analyze_search_results_def source_infer fallback_stage_def
      fallback_source_url_def fallback_target_date_def bad_result_raises dict_get_def)
    (simp add: bad_result_def acme_result_def)

section \<open>Goal extractor: the returned record\<close>

text \<open>On well-formed results no check raises, so the function returns.\<close>

lemma well_formed_result_dict: "well_formed_result lib r \<Longrightarrow> is_dict r"
  by (cases r) auto

lemma well_formed_result_checks:
  "well_formed_result lib r \<Longrightarrow> \<exists>b. passes_checks lib org_name r = Inr b"
  by (cases r)
    (auto simp: passes_checks_def result_matches_org_def url_belongs_to_org_def
      split: sum.splits elim!: is_str.elims)

lemma well_formed_result_description:
  "well_formed_result lib r \<Longrightarrow> \<exists>desc. get_method r ''description'' (JStr []) = Inr (JStr desc)"
  by (cases r) (auto elim!: is_str.elims)

lemma find_source_url_returns:
  "list_all (well_formed_result lib) rs \<Longrightarrow> \<exists>found. find_source_url lib org_name rs = Inr found"
proof (induction rs)
  case Nil
  show ?case by simp
next
  case (Cons r rs)
  then obtain d where d: "r = JObj d" "well_formed_result lib (JObj d)"
    by (cases r) auto
  from d(2) obtain b where b: "result_matches_org org_name (JObj d) = Inr b"
    using result_matches_org_typed by auto
  from d(2) obtain b' where
    b': "url_belongs_to_org lib org_name (dict_get d ''url'' (JStr [])) = Inr b'"
    by (auto simp: url_belongs_to_org_def split: sum.splits)
  from Cons d b b' show ?case by auto
qed

lemma find_target_date_returns:
  "list_all (well_formed_result lib) rs \<Longrightarrow> \<exists>found. find_target_date lib org_name rs = Inr found"
proof (induction rs)
  case Nil
  show ?case by simp
next
  case (Cons r rs)
  then have wf: "well_formed_result lib r" by simp
  from well_formed_result_checks [OF wf] obtain b where
    b: "passes_checks lib org_name r = Inr b" by blast
  from well_formed_result_description [OF wf] obtain desc where
    desc: "get_method r ''description'' (JStr []) = Inr (JStr desc)" by blast
  from Cons b desc show ?case
    by (cases "search_year_from False desc") auto
qed

lemma find_description_returns:
  "list_all (well_formed_result lib) rs \<Longrightarrow> \<exists>found. find_description lib org_name rs = Inr found"
proof (induction rs)
  case Nil
  show ?case by simp
next
  case (Cons r rs)
  then have wf: "well_formed_result lib r" by simp
  from well_formed_result_checks [OF wf] obtain b where
    b: "passes_checks lib org_name r = Inr b" by blast
  from well_formed_result_description [OF wf] obtain desc where
    desc: "get_method r ''description'' (JStr []) = Inr (JStr desc)" by blast
  from Cons b desc show ?case by auto
qed

lemma fallback_source_url_returns:
  assumes "list_all (well_formed_result lib) rs"
  shows "\<exists>p1. fallback_source_url lib org_name rs p = Inr p1"
proof -
  from find_source_url_returns [OF assms] obtain found where
    "find_source_url lib org_name rs = Inr found" by blast
  then show ?thesis
    by (cases found) (simp_all add: fallback_source_url_def)
qed

lemma fallback_target_date_returns:
  assumes "list_all (well_formed_result lib) rs"
  shows "\<exists>p2. fallback_target_date lib org_name rs p = Inr p2"
proof -
  from find_target_date_returns [OF assms] obtain found where
    "find_target_date lib org_name rs = Inr found" by blast
  then show ?thesis
    by (cases found) (simp_all add: fallback_target_date_def)
qed

lemma fallback_description_returns:
  assumes "list_all (well_formed_result lib) rs"
  shows "\<exists>p3. fallback_description lib org_name rs p = Inr p3"
proof -
  from find_description_returns [OF assms] obtain found where
    "find_description lib org_name rs = Inr found" by blast
  then show ?thesis
    by (cases found) (simp_all add: fallback_description_def)
qed

lemma fallback_stage_returns:
  assumes "list_all (well_formed_result lib) rs"
  shows "\<exists>p'. fallback_stage lib org_name rs p = Inr p'"
proof -
  from fallback_source_url_returns [OF assms] obtain p1 where
    p1: "fallback_source_url lib org_name rs p = Inr p1" by blast
  from fallback_target_date_returns [OF assms] obtain p2 where
    p2: "fallback_target_date lib org_name rs p1 = Inr p2" by blast
  from fallback_description_returns [OF assms] obtain p3 where
    p3: "fallback_description lib org_name rs p2 = Inr p3" by blast
  from p1 p2 p3 show ?thesis by (simp add: fallback_stage_def)
qed

lemma analyze_search_results_returns:
  assumes "list_all (well_formed_result lib) rs"
  shows "\<exists>rec w'. analyze_search_results lib w org_name (JArr rs) = (Inr rec, w')"
proof (cases "rs = []")
  case True
  then show ?thesis by (simp add: analyze_search_results_def)
next
  case False
  have dicts: "list_all is_dict rs"
    using assms by (induction rs) (auto dest: well_formed_result_dict)
  obtain parsed w1 where i: "infer lib w = (parsed, w1)"
    by (cases "infer lib w")
  from fallback_stage_returns [OF assms] obtain p' where
    "fallback_stage lib org_name rs parsed = Inr p'" by blast
  with False dicts i show ?thesis
    by (simp add: analyze_search_results_def)
qed

text \<open>The example: the inference request fails, and the fallbacks fill the record.\<close>

lemma acme_well_formed: "well_formed_result lib acme_result"
  by (simp add: acme_result_def dict_get_def url_defs)

lemma acme_infer_fails: "infer lib acme_world = ([], acme_world\<lparr>trace := [Http_post]\<rparr>)"
  by (simp add: infer_def requests_post_def acme_world_def)

lemma acme_analysis:
  "analyze_search_results example_lib acme_world ''Acme Corp'' (JArr [news_result, acme_result]) =
     (Inr [(''organization'', JStr ''Acme Corp''), (''has_goal'', JStr ''Not Found''),
           (''target_date'', JStr ''2035''), (''source_url'', JStr ''https://acme.com/press''),
           (''description'', JStr ''Acme targets net zero by 2035'')],
      acme_world\<lparr>trace := [Http_post]\<rparr>)"
  by (simp add: analyze_search_results_def acme_infer_fails acme_fallback goal_record_def
      dict_get_def) (simp add: acme_result_def news_result_def)

text \<open>
  C3. Whenever \<^verbatim>\<open>analyze_search_results\<close> returns a record, the record has exactly the five
  keys; with a false \<^verbatim>\<open>search_results\<close> its \<^verbatim>\<open>has_goal\<close> is \<^verbatim>\<open>Not Found\<close>, and otherwise its
  \<^verbatim>\<open>has_goal\<close> is \<^verbatim>\<open>Not Found\<close> when the answer has no \<^verbatim>\<open>has_goal\<close> entry after the inference
  step and the fallback stage, and the entry's value when it has one. The fallback stage
  leaves the \<^verbatim>\<open>has_goal\<close> entry as the inference step left it. On a list of well-formed
  results the function does return a record.
\<close>

theorem goal_record_populated:
  "(analyze_search_results lib w org_name search_results = (Inr rec, w') \<longrightarrow>
      map fst rec =
        [''organization'', ''has_goal'', ''target_date'', ''source_url'', ''description''] \<and>
      (\<not> truthy search_results \<longrightarrow> map_of rec ''has_goal'' = Some (JStr ''Not Found'')) \<and>
      (truthy search_results \<longrightarrow>
         (\<exists>rs p'. iter_items search_results = Inr rs \<and>
            fallback_stage lib org_name rs (fst (infer lib w)) = Inr p' \<and>
            map_of p' ''has_goal'' = map_of (fst (infer lib w)) ''has_goal'' \<and>
            map_of rec ''has_goal'' =
              Some (case map_of p' ''has_goal'' of
                      None \<Rightarrow> JStr ''Not Found''
                    | Some answer \<Rightarrow> answer)))) \<and>
   (\<forall>p p'. fallback_stage lib org_name results p = Inr p' \<longrightarrow>
      map_of p' ''has_goal'' = map_of p ''has_goal'') \<and>
   (list_all (well_formed_result lib) results \<longrightarrow>
      (\<exists>rec0 w0. analyze_search_results lib w org_name (JArr results) = (Inr rec0, w0)))"
proof -
  have a: "analyze_search_results lib w org_name search_results = (Inr rec, w') \<longrightarrow>
      map fst rec =
        [''organization'', ''has_goal'', ''target_date'', ''source_url'', ''description''] \<and>
      (\<not> truthy search_results \<longrightarrow> map_of rec ''has_goal'' = Some (JStr ''Not Found'')) \<and>
      (truthy search_results \<longrightarrow>
         (\<exists>rs p'. iter_items search_results = Inr rs \<and>
            fallback_stage lib org_name rs (fst (infer lib w)) = Inr p' \<and>
            map_of p' ''has_goal'' = map_of (fst (infer lib w)) ''has_goal'' \<and>
            map_of rec ''has_goal'' =
              Some (case map_of p' ''has_goal'' of
                      None \<Rightarrow> JStr ''Not Found''
                    | Some answer \<Rightarrow> answer)))"
  proof
    assume ret: "analyze_search_results lib w org_name search_results = (Inr rec, w')"
    show "map fst rec =
        [''organization'', ''has_goal'', ''target_date'', ''source_url'', ''description''] \<and>
      (\<not> truthy search_results \<longrightarrow> map_of rec ''has_goal'' = Some (JStr ''Not Found'')) \<and>
      (truthy search_results \<longrightarrow>
         (\<exists>rs p'. iter_items search_results = Inr rs \<and>
            fallback_stage lib org_name rs (fst (infer lib w)) = Inr p' \<and>
            map_of p' ''has_goal'' = map_of (fst (infer lib w)) ''has_goal'' \<and>
            map_of rec ''has_goal'' =
              Some (case map_of p' ''has_goal'' of
                      None \<Rightarrow> JStr ''Not Found''
                    | Some answer \<Rightarrow> answer)))"
    proof (cases "truthy search_results")
      case False
      with ret show ?thesis
        by (auto simp: analyze_search_results_def not_found_record_def)
    next
      case True
      with ret obtain rs p' where
        rs: "iter_items search_results = Inr rs" and
        st: "fallback_stage lib org_name rs (fst (infer lib w)) = Inr p'" and
        rec: "rec = goal_record org_name p'"
        by (auto simp: analyze_search_results_def split: sum.splits if_splits prod.splits)
      from True rs st rec fallback_stage_has_goal [OF st] show ?thesis
        by (auto simp: goal_record_def dict_get_def)
    qed
  qed
  from a fallback_stage_has_goal analyze_search_results_returns show ?thesis
    by blast
qed

theorem goal_record_populated_witness:
  "analyze_search_results example_lib acme_world ''Acme Corp'' (JArr [news_result, acme_result]) =
     (Inr [(''organization'', JStr ''Acme Corp''), (''has_goal'', JStr ''Not Found''),
           (''target_date'', JStr ''2035''), (''source_url'', JStr ''https://acme.com/press''),
           (''description'', JStr ''Acme targets net zero by 2035'')],
      acme_world\<lparr>trace := [Http_post]\<rparr>) \<and>
   map_of (fst (infer example_lib acme_world)) ''has_goal'' = None \<and>
   (\<exists>p'. fallback_stage example_lib ''Acme Corp'' [news_result, acme_result]
            (fst (infer example_lib acme_world)) = Inr p' \<and>
         map_of p' ''has_goal'' = None) \<and>
   list_all (well_formed_result example_lib) [acme_result]"
  using goal_record_populated
      [of example_lib acme_world "''Acme Corp''" "JArr [news_result, acme_result]"
        "[(''organization'', JStr ''Acme Corp''), (''has_goal'', JStr ''Not Found''),
          (''target_date'', JStr ''2035''), (''source_url'', JStr ''https://acme.com/press''),
          (''description'', JStr ''Acme targets net zero by 2035'')]"
        "acme_world\<lparr>trace := [Http_post]\<rparr>" "[acme_result]"]
    acme_analysis acme_well_formed [of example_lib]
  by (auto simp: acme_infer_fails)

text \<open>
  The same results with an inference answer that says \<^verbatim>\<open>Yes\<close>: the answer's \<^verbatim>\<open>has_goal\<close> is
  passed through and the other fields come from the fallbacks.
\<close>

lemma acme_infer_answer:
  "infer answer_lib (acme_world\<lparr>post_replies := [Response 200 (Some acme_answer)]\<rparr>) =
     ([(''has_goal'', JStr ''Yes'')], acme_world\<lparr>post_replies := [], trace := [Http_post]\<rparr>)"
  by (simp add: infer_def requests_post_def acme_world_def parse_answer_def
      claude_response_text_def acme_answer_def dict_get_def json_candidate_def answer_lib_def
      example_lib_def)

lemma acme_analysis_with_answer:
  "analyze_search_results answer_lib
     (acme_world\<lparr>post_replies := [Response 200 (Some acme_answer)]\<rparr>) ''Acme Corp''
     (JArr [news_result, acme_result]) =
     (Inr [(''organization'', JStr ''Acme Corp''), (''has_goal'', JStr ''Yes''),
           (''target_date'', JStr ''2035''), (''source_url'', JStr ''https://acme.com/press''),
           (''description'', JStr ''Acme targets net zero by 2035'')],
      acme_world\<lparr>post_replies := [], trace := [Http_post]\<rparr>)"
  by (simp add: analyze_search_results_def acme_infer_answer goal_record_def eval_defs)

end
